theory Spec2Isabelle
  imports Main "HOL-Library.Sublist"
begin

section \<open>JavaScript values\<close>

text \<open>
  The pose module (\<^verbatim>\<open>src/poses/pose-io.js\<close>) is dynamically typed: a pose document is
  whatever \<^verbatim>\<open>JSON.parse\<close> returned or whatever the caller passed. Documents are therefore
  values of the datatype below. Numbers are never computed with in this module: they are
  copied (\<^verbatim>\<open>toArray\<close>, \<^verbatim>\<open>fromArray\<close>), tested for truthiness and converted by \<^verbatim>\<open>String\<close>.
  A number is represented by its canonical rendering, the string \<^verbatim>\<open>String(n)\<close> returns
  (\<^verbatim>\<open>0\<close>, \<^verbatim>\<open>0.5\<close>, \<^verbatim>\<open>NaN\<close>, ...); negative zero is identified with zero.
  A string is a list of UTF-16 code units below 256 (the characters of Latin-1), so an
  Isabelle character is one code unit: indexing, length, \<^verbatim>\<open>includes\<close> and \<^verbatim>\<open>endsWith\<close> count
  as JavaScript does, and \<^verbatim>\<open>toLowerCase\<close> and \<^verbatim>\<open>trim\<close> are JavaScript's on every string
  of this type. Function values do not occur in documents.
\<close>

datatype jsval =
    JUndefined
  | JNull
  | JBool bool
  | JNum string
  | JStr string
  | JArr "jsval list"
  | JObj "(string \<times> jsval) list"

text \<open>
  What is thrown: an \<^verbatim>\<open>Error\<close> with its message, a TypeError, the SyntaxError of
  \<^verbatim>\<open>JSON.parse\<close>, or the rejection of a file read.
\<close>

datatype error = Error string | TypeError | SyntaxError | ReadError

text \<open>Truthiness (\<^verbatim>\<open>!!v\<close>).\<close>

fun truthy :: "jsval \<Rightarrow> bool" where
  "truthy JUndefined = False"
| "truthy JNull = False"
| "truthy (JBool b) = b"
| "truthy (JNum n) = (n \<noteq> ''0'' \<and> n \<noteq> ''NaN'')"
| "truthy (JStr s) = (s \<noteq> [])"
| "truthy (JArr xs) = True"
| "truthy (JObj kvs) = True"

fun nullish :: "jsval \<Rightarrow> bool" where
  "nullish JUndefined = True"
| "nullish JNull = True"
| "nullish v = False"

text \<open>\<^verbatim>\<open>typeof v === "object"\<close>: true of null, arrays and objects.\<close>

fun typeof_object :: "jsval \<Rightarrow> bool" where
  "typeof_object JNull = True"
| "typeof_object (JArr xs) = True"
| "typeof_object (JObj kvs) = True"
| "typeof_object v = False"

text \<open>
  \<^verbatim>\<open>typeof v === "string"\<close> and \<^verbatim>\<open>Array.isArray(v)\<close> are written as pattern matches on
  \<open>JStr\<close> and \<open>JArr\<close> where the module tests them.
\<close>

subsection \<open>Decimal numerals\<close>

definition digit_char :: "nat \<Rightarrow> char" where
  "digit_char d = ''0123456789'' ! d"

fun string_of_nat :: "nat \<Rightarrow> string" where
  "string_of_nat n =
     (if n < 10 then [digit_char n]
      else string_of_nat (n div 10) @ [digit_char (n mod 10)])"

declare string_of_nat.simps [simp del]

definition digit_val :: "char \<Rightarrow> nat option" where
  "digit_val c = map_of (zip ''0123456789'' [0, 1, 2, 3, 4, 5, 6, 7, 8, 9]) c"

fun parse_digits :: "string \<Rightarrow> nat \<Rightarrow> nat option" where
  "parse_digits [] acc = Some acc"
| "parse_digits (c # cs) acc =
     (case digit_val c of None \<Rightarrow> None | Some d \<Rightarrow> parse_digits cs (10 * acc + d))"

text \<open>
  A property key that is an array index: a canonical decimal numeral (no sign, no leading
  zero).
\<close>

definition array_index :: "string \<Rightarrow> nat option" where
  "array_index k =
     (if k = [] \<or> (hd k = CHR ''0'' \<and> tl k \<noteq> []) then None else parse_digits k 0)"

subsection \<open>Property access\<close>

text \<open>
  \<^verbatim>\<open>v[k]\<close> for a value that is neither null nor undefined. Own properties only: every
  inherited property of a plain object, an array or a primitive is a function, a number
  or a non-array object, and the module only ever asks of a looked-up joint entry whether
  it is an array of length 4, and of the fixed keys it reads (\<^verbatim>\<open>joints\<close>, \<^verbatim>\<open>props\<close>,
  \<^verbatim>\<open>notes\<close>, \<^verbatim>\<open>type\<close>, \<^verbatim>\<open>name\<close>, \<^verbatim>\<open>position\<close>, \<^verbatim>\<open>quaternion\<close>, \<^verbatim>\<open>scale\<close>) none is
  inherited. An object is an association list in insertion order with distinct keys.
\<close>

fun js_get :: "jsval \<Rightarrow> string \<Rightarrow> jsval" where
  "js_get (JObj kvs) k = (case map_of kvs k of Some v \<Rightarrow> v | None \<Rightarrow> JUndefined)"
| "js_get (JArr xs) k =
     (if k = ''length'' then JNum (string_of_nat (length xs))
      else case array_index k of
             Some i \<Rightarrow> if i < length xs then xs ! i else JUndefined
           | None \<Rightarrow> JUndefined)"
| "js_get (JStr s) k =
     (if k = ''length'' then JNum (string_of_nat (length s))
      else case array_index k of
             Some i \<Rightarrow> if i < length s then JStr [s ! i] else JUndefined
           | None \<Rightarrow> JUndefined)"
| "js_get v k = JUndefined"

text \<open>Optional chaining, \<^verbatim>\<open>v?.k\<close>.\<close>

definition js_get_opt :: "jsval \<Rightarrow> string \<Rightarrow> jsval" where
  "js_get_opt v k = (if nullish v then JUndefined else js_get v k)"

text \<open>\<^verbatim>\<open>v[i]\<close> with a numeric index, as three.js reads arrays in \<^verbatim>\<open>fromArray\<close>.\<close>

fun js_at :: "jsval \<Rightarrow> nat \<Rightarrow> jsval" where
  "js_at (JArr xs) i = (if i < length xs then xs ! i else JUndefined)"
| "js_at (JStr s) i = (if i < length s then JStr [s ! i] else JUndefined)"
| "js_at (JObj kvs) i = (case map_of kvs (string_of_nat i) of Some v \<Rightarrow> v | None \<Rightarrow> JUndefined)"
| "js_at v i = JUndefined"

text \<open>\<^verbatim>\<open>obj[k] = v\<close> on a plain object: overwrite in place, or append a new property.\<close>

fun obj_set :: "(string \<times> jsval) list \<Rightarrow> string \<Rightarrow> jsval \<Rightarrow> (string \<times> jsval) list" where
  "obj_set [] k v = [(k, v)]"
| "obj_set ((k', v') # kvs) k v =
     (if k' = k then (k, v) # kvs else (k', v') # obj_set kvs k v)"

subsection \<open>Strings\<close>

fun join_comma :: "string list \<Rightarrow> string" where
  "join_comma [] = []"
| "join_comma [s] = s"
| "join_comma (s # t # ss) = s @ '','' @ join_comma (t # ss)"

text \<open>The first error of a list of results, or all the values.\<close>

fun collect :: "(error + 'a) list \<Rightarrow> error + 'a list" where
  "collect [] = Inr []"
| "collect (Inl e # rs) = Inl e"
| "collect (Inr x # rs) = (case collect rs of Inl e \<Rightarrow> Inl e | Inr xs \<Rightarrow> Inr (x # xs))"

text \<open>
  \<^verbatim>\<open>String(v)\<close>. An object is converted by its \<^verbatim>\<open>toString\<close> method: the inherited one
  gives \<^verbatim>\<open>[object Object]\<close>; an own property \<^verbatim>\<open>toString\<close> hides it, is no function (no
  value of a document is), and \<^verbatim>\<open>valueOf\<close>, own or inherited, gives no primitive either, so
  the conversion throws a TypeError. An array is joined with commas, null and undefined
  elements giving the empty string, and the conversion of an element may throw.
\<close>

fun js_to_string :: "jsval \<Rightarrow> error + string" where
  "js_to_string JUndefined = Inr ''undefined''"
| "js_to_string JNull = Inr ''null''"
| "js_to_string (JBool b) = Inr (if b then ''true'' else ''false'')"
| "js_to_string (JNum n) = Inr n"
| "js_to_string (JStr s) = Inr s"
| "js_to_string (JArr xs) =
     (case collect (map (\<lambda>x. if nullish x then Inr [] else js_to_string x) xs) of
        Inl e \<Rightarrow> Inl e
      | Inr ss \<Rightarrow> Inr (join_comma ss))"
| "js_to_string (JObj kvs) =
     (case map_of kvs ''toString'' of
        Some m \<Rightarrow> Inl TypeError
      | None \<Rightarrow> Inr ''[object Object]'')"

text \<open>
  \<^verbatim>\<open>toLowerCase\<close> on code units below 256: the letters A to Z and the capital letters of
  Latin-1 (U+00C0 to U+00DE without the multiplication sign U+00D7) move up by 32; every
  other code unit stays.
\<close>

definition lower_char :: "char \<Rightarrow> char" where
  "lower_char c =
     (case map_of
         (zip (''ABCDEFGHIJKLMNOPQRSTUVWXYZ'' @
               [CHR 0xC0, CHR 0xC1, CHR 0xC2, CHR 0xC3, CHR 0xC4, CHR 0xC5, CHR 0xC6, CHR 0xC7,
                CHR 0xC8, CHR 0xC9, CHR 0xCA, CHR 0xCB, CHR 0xCC, CHR 0xCD, CHR 0xCE, CHR 0xCF,
                CHR 0xD0, CHR 0xD1, CHR 0xD2, CHR 0xD3, CHR 0xD4, CHR 0xD5, CHR 0xD6,
                CHR 0xD8, CHR 0xD9, CHR 0xDA, CHR 0xDB, CHR 0xDC, CHR 0xDD, CHR 0xDE])
              (''abcdefghijklmnopqrstuvwxyz'' @
               [CHR 0xE0, CHR 0xE1, CHR 0xE2, CHR 0xE3, CHR 0xE4, CHR 0xE5, CHR 0xE6, CHR 0xE7,
                CHR 0xE8, CHR 0xE9, CHR 0xEA, CHR 0xEB, CHR 0xEC, CHR 0xED, CHR 0xEE, CHR 0xEF,
                CHR 0xF0, CHR 0xF1, CHR 0xF2, CHR 0xF3, CHR 0xF4, CHR 0xF5, CHR 0xF6,
                CHR 0xF8, CHR 0xF9, CHR 0xFA, CHR 0xFB, CHR 0xFC, CHR 0xFD, CHR 0xFE])) c of
        Some l \<Rightarrow> l
      | None \<Rightarrow> c)"

definition toLowerCase :: "string \<Rightarrow> string" where
  "toLowerCase s = map lower_char s"

text \<open>
  \<^verbatim>\<open>trim\<close> strips white space and line terminators; below 256 these are tab, line feed,
  vertical tab, form feed, carriage return, space and the no-break space U+00A0.
\<close>

definition is_space :: "char \<Rightarrow> bool" where
  "is_space c =
     (c \<in> set [CHR '' '', CHR 0x09, CHR 0x0A, CHR 0x0B, CHR 0x0C, CHR 0x0D, CHR 0xA0])"

definition trim :: "string \<Rightarrow> string" where
  "trim s = rev (dropWhile is_space (rev (dropWhile is_space s)))"

fun startsWith :: "string \<Rightarrow> string \<Rightarrow> bool" where
  "startsWith s [] = True"
| "startsWith [] (k # ks) = False"
| "startsWith (c # cs) (k # ks) = (c = k \<and> startsWith cs ks)"

definition endsWith :: "string \<Rightarrow> string \<Rightarrow> bool" where
  "endsWith s k = startsWith (rev s) (rev k)"

text \<open>\<^verbatim>\<open>s.includes(k)\<close>: \<open>k\<close> occurs in \<open>s\<close> as a contiguous substring.\<close>

fun str_includes :: "string \<Rightarrow> string \<Rightarrow> bool" where
  "str_includes [] k = (k = [])"
| "str_includes (c # cs) k = (startsWith (c # cs) k \<or> str_includes cs k)"

section \<open>Prop type inference\<close>

text \<open>
  \<^verbatim>\<open>inferTypeFromLegacyName(p)\<close> reads only \<^verbatim>\<open>p?.name\<close>; the argument here is that value
  (\<open>JUndefined\<close> when \<open>p\<close> is nullish or has no name). It is called with a live prop by the
  serializer and with a prop descriptor by the applier. It throws when
  \<^verbatim>\<open>String(p?.name || "")\<close> does.
\<close>

definition inferTypeFromLegacyName :: "jsval \<Rightarrow> error + string" where
  "inferTypeFromLegacyName p_name =
     (case js_to_string (if truthy p_name then p_name else JStr []) of
        Inl e \<Rightarrow> Inl e
      | Inr str \<Rightarrow>
          (let n = toLowerCase str
           in Inr (if str_includes n ''sphere'' then ''sphere''
                   else if str_includes n ''cube'' \<or> str_includes n ''box'' then ''cube''
                   else if str_includes n ''cyl'' then ''cylinder''
                   else if str_includes n ''cone'' then ''cone''
                   else if str_includes n ''torus'' then ''torus''
                   else if str_includes n ''ring'' then ''ring''
                   else if str_includes n ''disc'' \<or> str_includes n ''circle'' then ''disc''
                   else if str_includes n ''plane'' then ''plane''
                   else if str_includes n ''icosa'' then ''icosa''
                   else if str_includes n ''octa'' then ''octa''
                   else if str_includes n ''dodeca'' then ''dodeca''
                   else if str_includes n ''tetra'' then ''tetra''
                   else ''cube'')))"

text \<open>
  The keyword table as the specification words it: ordered groups of keywords, each with
  the type it stands for; the first group with a keyword occurring in the name wins, and
  the default is \<open>cube\<close>.
\<close>

fun first_match :: "(string list \<times> string) list \<Rightarrow> string \<Rightarrow> string" where
  "first_match [] n = ''cube''"
| "first_match ((ks, t) # rest) n =
     (if list_ex (\<lambda>k. sublist k n) ks then t else first_match rest n)"

definition spec_keywords :: "(string list \<times> string) list" where
  "spec_keywords =
     [([''sphere''], ''sphere''), ([''cube'', ''box''], ''cube''),
      ([''cylinder''], ''cylinder''), ([''cone''], ''cone''), ([''torus''], ''torus''),
      ([''ring''], ''ring''), ([''disc'', ''circle''], ''disc''), ([''plane''], ''plane''),
      ([''icosa''], ''icosa''), ([''octa''], ''octa''), ([''dodeca''], ''dodeca''),
      ([''tetra''], ''tetra'')]"

text \<open>The same table with the cylinder keyword shortened to the prefix \<open>cyl\<close>.\<close>

definition code_keywords :: "(string list \<times> string) list" where
  "code_keywords =
     [([''sphere''], ''sphere''), ([''cube'', ''box''], ''cube''),
      ([''cyl''], ''cylinder''), ([''cone''], ''cone''), ([''torus''], ''torus''),
      ([''ring''], ''ring''), ([''disc'', ''circle''], ''disc''), ([''plane''], ''plane''),
      ([''icosa''], ''icosa''), ([''octa''], ''octa''), ([''dodeca''], ''dodeca''),
      ([''tetra''], ''tetra'')]"

text \<open>
  \<^verbatim>\<open>v || ""\<close>; whether \<^verbatim>\<open>String(v)\<close> returns; and the string it returns when it does.
\<close>

definition orEmpty :: "jsval \<Rightarrow> jsval" where
  "orEmpty v = (if truthy v then v else JStr [])"

definition converts :: "jsval \<Rightarrow> bool" where
  "converts v = (case js_to_string v of Inl e \<Rightarrow> False | Inr str \<Rightarrow> True)"

definition stringOf :: "jsval \<Rightarrow> string" where
  "stringOf v = (case js_to_string v of Inl e \<Rightarrow> [] | Inr str \<Rightarrow> str)"

section \<open>The live world and the collaborators\<close>

text \<open>
  A three.js quaternion holds four components and a vector three; \<^verbatim>\<open>toArray()\<close> lists
  them and \<^verbatim>\<open>fromArray(a)\<close> overwrites each of them with \<^verbatim>\<open>a[0]\<close>, \<^verbatim>\<open>a[1]\<close>, ...
  whatever those are.
\<close>

record quat =
  qx :: jsval
  qy :: jsval
  qz :: jsval
  qw :: jsval

record vec3 =
  vx :: jsval
  vy :: jsval
  vz :: jsval

definition quat_toArray :: "quat \<Rightarrow> jsval" where
  "quat_toArray q = JArr [qx q, qy q, qz q, qw q]"

definition quat_fromArray :: "jsval \<Rightarrow> quat" where
  "quat_fromArray a = \<lparr>qx = js_at a 0, qy = js_at a 1, qz = js_at a 2, qw = js_at a 3\<rparr>"

definition vec3_toArray :: "vec3 \<Rightarrow> jsval" where
  "vec3_toArray v = JArr [vx v, vy v, vz v]"

definition vec3_fromArray :: "jsval \<Rightarrow> vec3" where
  "vec3_fromArray a = \<lparr>vx = js_at a 0, vy = js_at a 1, vz = js_at a 2\<rparr>"

text \<open>A joint: \<^verbatim>\<open>j.name\<close> and \<^verbatim>\<open>j.quaternion\<close>.\<close>

record joint =
  jname :: string
  jquat :: quat

text \<open>
  A prop: \<^verbatim>\<open>p.name\<close>, \<^verbatim>\<open>p.userData\<close> (absent, or an object of which the module
  touches the fields \<^verbatim>\<open>type\<close> and \<^verbatim>\<open>isProp\<close>), \<^verbatim>\<open>p.position\<close>, \<^verbatim>\<open>p.quaternion\<close>,
  \<^verbatim>\<open>p.scale\<close>. \<open>ident\<close> is the identity of the object, by which the scene holds it.
  The entries of the prop collection are distinct objects.
\<close>

record userdata =
  ud_type :: jsval
  isProp :: jsval

record propobj =
  ident :: nat
  pname :: jsval
  userData :: "userdata option"
  position :: vec3
  pquat :: quat
  scale :: vec3

record world =
  joints :: "joint list option"
  props :: "propobj list option"

text \<open>The calls the module makes to the hooks it was given, in order.\<close>

datatype call =
    ShowToast string "nat option"
  | UpdateOutline
  | ForceRenderOnce
  | ResetAllJointRotations
  | AddProp string
  | RenderGallery
  | ConsoleWarn string error

text \<open>
  The injected dependencies together with the state they give access to. \<open>scene\<close> is the
  list of the identities of the scene's children; \<open>poseNotesEl\<close> is the value of the notes
  textarea. The prop factory \<open>addProp\<close> is the caller's code: any function on the prop
  collection and the scene. The joint resetter is the caller's code on the joint
  collection. The other hooks return nothing; a hook that is present is recorded in
  \<open>calls\<close> when the module calls it.
\<close>

type_synonym factory = "string \<Rightarrow> propobj list \<times> nat list \<Rightarrow> propobj list \<times> nat list"

record deps =
  world :: "world option"
  scene :: "nat list option"
  poseNotesEl :: "string option"
  addProp :: "factory option"
  showToast :: bool
  updateOutline :: bool
  forceRenderOnce :: bool
  resetAllJointRotations :: "(joint list \<Rightarrow> joint list) option"
  calls :: "call list"

section \<open>Serialization\<close>

text \<open>
  The callback of \<^verbatim>\<open>world.props.map\<close>. Only the type can throw:
  \<^verbatim>\<open>String(p?.userData?.type || inferTypeFromLegacyName(p))\<close>.
\<close>

definition serializeProp :: "propobj \<Rightarrow> error + jsval" where
  "serializeProp p =
     (case (let t = (case userData p of None \<Rightarrow> JUndefined | Some u \<Rightarrow> ud_type u)
            in if truthy t then js_to_string t
               else (case inferTypeFromLegacyName (pname p) of
                       Inl e \<Rightarrow> Inl e
                     | Inr inferred \<Rightarrow> js_to_string (JStr inferred))) of
        Inl e \<Rightarrow> Inl e
      | Inr ty \<Rightarrow>
          Inr (JObj [(''type'', JStr ty),
                     (''name'', if truthy (pname p) then pname p else JStr []),
                     (''position'', vec3_toArray (position p)),
                     (''quaternion'', quat_toArray (pquat p)),
                     (''scale'', vec3_toArray (scale p))]))"

text \<open>
  \<^verbatim>\<open>joints[j.name] = j.quaternion.toArray()\<close> for every joint, on an object that starts
  empty. The applier reads the object back by key only, so the order of the list carries no
  meaning; a joint named \<^verbatim>\<open>__proto__\<close> is held as the prototype of the object and is
  read back under that name like an own property.
\<close>

definition serializeJoints :: "joint list \<Rightarrow> (string \<times> jsval) list" where
  "serializeJoints js = foldl (\<lambda>obj j. obj_set obj (jname j) (quat_toArray (jquat j))) [] js"

text \<open>\<open>now\<close> is what \<^verbatim>\<open>nowISO()\<close> returns at the call.\<close>

definition serializePose :: "string \<Rightarrow> deps \<Rightarrow> error + jsval" where
  "serializePose now d =
     (case world d of
        None \<Rightarrow> Inl (Error ''serializePose: missing world'')
      | Some w \<Rightarrow>
          (case joints w of
             None \<Rightarrow> Inl (Error ''serializePose: missing world'')
           | Some js \<Rightarrow>
               (case props w of
                  None \<Rightarrow> Inl (Error ''serializePose: missing world'')
                | Some ps \<Rightarrow>
                    (case collect (map serializeProp ps) of
                       Inl e \<Rightarrow> Inl e
                     | Inr pds \<Rightarrow>
                         (case js_to_string
                                 (case poseNotesEl d of
                                    None \<Rightarrow> JStr []
                                  | Some v \<Rightarrow> if truthy (JStr v) then JStr v else JStr []) of
                            Inl e \<Rightarrow> Inl e
                          | Inr notes \<Rightarrow>
                              Inr (JObj
                                [(''version'', JNum ''1''),
                                 (''notes'', JStr notes),
                                 (''joints'', JObj (serializeJoints js)),
                                 (''props'', JArr pds),
                                 (''savedAt'', JStr now)]))))))"

section \<open>Applying a pose\<close>

text \<open>
  \<^verbatim>\<open>Array.isArray(q) && q.length === 4\<close>, and the body of \<^verbatim>\<open>world.joints.forEach\<close> in
  \<^verbatim>\<open>applyPose\<close>.
\<close>

definition isQuatArray :: "jsval \<Rightarrow> bool" where
  "isQuatArray q = (case q of JArr xs \<Rightarrow> length xs = 4 | _ \<Rightarrow> False)"

definition applyJoint :: "jsval \<Rightarrow> joint \<Rightarrow> joint" where
  "applyJoint data_joints j =
     (let q = js_get data_joints (jname j)
      in if isQuatArray q then j\<lparr>jquat := quat_fromArray q\<rparr> else j)"

text \<open>\<^verbatim>\<open>scene.remove(p)\<close>: the first occurrence of the object among the children goes.\<close>

definition scene_remove :: "nat list \<Rightarrow> propobj \<Rightarrow> nat list" where
  "scene_remove sc p = remove1 (ident p) sc"

text \<open>
  The key the factory is called with:
  \<^verbatim>\<open>String(pd?.type || "").trim().toLowerCase() || inferTypeFromLegacyName(pd)\<close>. Either
  conversion can throw; the name is only looked at when the type is blank.
\<close>

definition propTypeKey :: "jsval \<Rightarrow> error + string" where
  "propTypeKey pd =
     (let ty = js_get_opt pd ''type''
      in case js_to_string (if truthy ty then ty else JStr []) of
           Inl e \<Rightarrow> Inl e
         | Inr str \<Rightarrow>
             (let t = toLowerCase (trim str)
              in if t \<noteq> [] then Inr t
                 else inferTypeFromLegacyName (js_get_opt pd ''name'')))"

text \<open>
  The tail of the \<^verbatim>\<open>data.props.forEach\<close> callback, from \<^verbatim>\<open>pd.position\<close> on, for a
  descriptor that is neither null nor undefined.
\<close>

definition copyTransform :: "jsval \<Rightarrow> propobj \<Rightarrow> propobj" where
  "copyTransform pd p =
     (let p1 = (if truthy (js_get pd ''position'')
                then p\<lparr>position := vec3_fromArray (js_get pd ''position'')\<rparr> else p);
          p2 = (if truthy (js_get pd ''quaternion'')
                then p1\<lparr>pquat := quat_fromArray (js_get pd ''quaternion'')\<rparr> else p1);
          p3 = (if truthy (js_get pd ''scale'')
                then p2\<lparr>scale := vec3_fromArray (js_get pd ''scale'')\<rparr> else p2)
      in if truthy (js_get pd ''name'') then p3\<lparr>pname := js_get pd ''name''\<rparr> else p3)"

text \<open>\<^verbatim>\<open>if (!p.userData) p.userData = {}; p.userData.type = t; p.userData.isProp = true\<close>.\<close>

definition tagProp :: "string \<Rightarrow> propobj \<Rightarrow> propobj" where
  "tagProp t p =
     p\<lparr>userData :=
         Some ((case userData p of
                  None \<Rightarrow> \<lparr>ud_type = JUndefined, isProp = JUndefined\<rparr>
                | Some u \<Rightarrow> u)\<lparr>ud_type := JStr t, isProp := JBool True\<rparr>)\<rparr>"

text \<open>
  The \<^verbatim>\<open>data.props.forEach\<close> callback on one descriptor. The state is the prop
  collection, the scene and the calls so far. Computing the key can throw a TypeError,
  before the factory is called. Reading \<^verbatim>\<open>pd.position\<close> of a null or undefined
  descriptor throws a TypeError, after the factory has run and the last prop has been
  tagged.
\<close>

definition applyPropDesc ::
  "factory option \<Rightarrow> jsval \<Rightarrow> propobj list \<times> nat list \<times> call list
     \<Rightarrow> error option \<times> propobj list \<times> nat list \<times> call list" where
  "applyPropDesc f_opt pd st =
     (case st of (ps, sc, cs) \<Rightarrow>
       (case f_opt of
          None \<Rightarrow> (None, ps, sc, cs)
        | Some f \<Rightarrow>
            (case propTypeKey pd of
               Inl e \<Rightarrow> (Some e, ps, sc, cs)
             | Inr t \<Rightarrow>
                 (let ps1 = fst (f t (ps, sc));
                      sc1 = snd (f t (ps, sc));
                      cs1 = cs @ [AddProp t]
                  in if ps1 = [] then (None, ps1, sc1, cs1)
                     else let p = tagProp t (last ps1)
                          in if nullish pd
                             then (Some TypeError, ps1[length ps1 - 1 := p], sc1, cs1)
                             else (None, ps1[length ps1 - 1 := copyTransform pd p], sc1, cs1)))))"

fun applyPropDescs ::
  "factory option \<Rightarrow> jsval list \<Rightarrow> propobj list \<times> nat list \<times> call list
     \<Rightarrow> error option \<times> propobj list \<times> nat list \<times> call list" where
  "applyPropDescs f_opt [] st = (None, st)"
| "applyPropDescs f_opt (pd # pds) st =
     (case applyPropDesc f_opt pd st of
        (Some e, st') \<Rightarrow> (Some e, st')
      | (None, st') \<Rightarrow> applyPropDescs f_opt pds st')"

text \<open>The prop step: \<^verbatim>\<open>if (Array.isArray(data.props)) { ... }\<close>.\<close>

definition applyProps ::
  "factory option \<Rightarrow> jsval \<Rightarrow> propobj list \<times> nat list \<times> call list
     \<Rightarrow> error option \<times> propobj list \<times> nat list \<times> call list" where
  "applyProps f_opt data_props st =
     (case st of (ps, sc, cs) \<Rightarrow>
       (case data_props of
          JArr pds \<Rightarrow> applyPropDescs f_opt pds ([], foldl scene_remove sc ps, cs)
        | _ \<Rightarrow> (None, ps, sc, cs)))"

text \<open>The joint step: \<^verbatim>\<open>if (data.joints && typeof data.joints === "object") { ... }\<close>.\<close>

definition applyJoints :: "jsval \<Rightarrow> joint list \<Rightarrow> joint list" where
  "applyJoints data_joints js =
     (if truthy data_joints \<and> typeof_object data_joints
      then map (applyJoint data_joints) js else js)"

text \<open>\<^verbatim>\<open>if (poseNotesEl && typeof data.notes === "string") poseNotesEl.value = data.notes\<close>.\<close>

definition applyNotes :: "jsval \<Rightarrow> string option \<Rightarrow> string option" where
  "applyNotes data_notes el =
     (case el of
        None \<Rightarrow> None
      | Some v \<Rightarrow> (case data_notes of JStr s \<Rightarrow> Some s | _ \<Rightarrow> Some v))"

definition refreshCalls :: "deps \<Rightarrow> call list" where
  "refreshCalls d =
     (if updateOutline d then [UpdateOutline] else []) @
     (if forceRenderOnce d then [ForceRenderOnce] else [])"

text \<open>
  \<^verbatim>\<open>applyPose(data, deps)\<close>. The result pairs what the call returns or throws with the
  state it leaves behind.
\<close>

definition applyPose :: "jsval \<Rightarrow> deps \<Rightarrow> (error + unit) \<times> deps" where
  "applyPose data d =
     (if \<not> truthy data \<or> \<not> typeof_object data then (Inl (Error ''Invalid pose JSON''), d)
      else case world d of
        None \<Rightarrow> (Inl (Error ''applyPose: missing world''), d)
      | Some w \<Rightarrow>
          (case joints w of
             None \<Rightarrow> (Inl (Error ''applyPose: missing world''), d)
           | Some js \<Rightarrow>
               (case props w of
                  None \<Rightarrow> (Inl (Error ''applyPose: missing world''), d)
                | Some ps \<Rightarrow>
                    (case scene d of
                       None \<Rightarrow> (Inl (Error ''applyPose: missing scene''), d)
                     | Some sc \<Rightarrow>
                         (case applyProps (addProp d) (js_get data ''props'') (ps, sc, calls d) of
                            (err, ps', sc', cs') \<Rightarrow>
                              (let d1 = d\<lparr>world := Some (w\<lparr>joints :=
                                                 Some (applyJoints (js_get data ''joints'') js),
                                               props := Some ps'\<rparr>),
                                          scene := Some sc', calls := cs'\<rparr>
                               in case err of
                                    Some e \<Rightarrow> (Inl e, d1)
                                  | None \<Rightarrow>
                                      (Inr (),
                                       d1\<lparr>poseNotesEl :=
                                             applyNotes (js_get data ''notes'') (poseNotesEl d),
                                          calls := cs' @ refreshCalls d @
                                            (if showToast d then [ShowToast ''Pose loaded'' None]
                                             else [])\<rparr>)))))))"

section \<open>Applying joints only\<close>

text \<open>
  The loop of \<^verbatim>\<open>applyPoseJointsOnly\<close>: the same test and the same overwrite, and a
  counter for the joints overwritten.
\<close>

fun applyJointsCount :: "jsval \<Rightarrow> joint list \<Rightarrow> nat \<Rightarrow> joint list \<times> nat" where
  "applyJointsCount data_joints [] appliedCount = ([], appliedCount)"
| "applyJointsCount data_joints (j # js) appliedCount =
     (let q = js_get data_joints (jname j)
      in if isQuatArray q
         then (case applyJointsCount data_joints js (appliedCount + 1) of
                 (js', n) \<Rightarrow> (j\<lparr>jquat := quat_fromArray q\<rparr> # js', n))
         else (case applyJointsCount data_joints js appliedCount of
                 (js', n) \<Rightarrow> (j # js', n)))"

definition presetToast :: "nat \<Rightarrow> call" where
  "presetToast appliedCount =
     (if appliedCount = 0 then ShowToast ''Preset loaded (no matching joints)'' (Some 2000)
      else ShowToast (''Preset loaded ('' @ string_of_nat appliedCount @ '' joints)'') None)"

definition applyPoseJointsOnly :: "jsval \<Rightarrow> deps \<Rightarrow> (error + nat) \<times> deps" where
  "applyPoseJointsOnly data d =
     (if \<not> truthy data \<or> \<not> typeof_object data
      then (Inl (Error ''Invalid preset/pose object''), d)
      else if \<not> truthy (js_get data ''joints'') \<or> \<not> typeof_object (js_get data ''joints'')
      then (Inl (Error ''Pose missing joints''), d)
      else case world d of
        None \<Rightarrow> (Inl (Error ''applyPoseJointsOnly: missing world''), d)
      | Some w \<Rightarrow>
          (case joints w of
             None \<Rightarrow> (Inl (Error ''applyPoseJointsOnly: missing world''), d)
           | Some js \<Rightarrow>
               (let js0 = (case resetAllJointRotations d of Some r \<Rightarrow> r js | None \<Rightarrow> js);
                    cs0 = (case resetAllJointRotations d of
                             Some r \<Rightarrow> [ResetAllJointRotations] | None \<Rightarrow> [])
                in case applyJointsCount (js_get data ''joints'') js0 0 of
                     (js1, appliedCount) \<Rightarrow>
                       (Inr appliedCount,
                        d\<lparr>world := Some (w\<lparr>joints := Some js1\<rparr>),
                          calls := calls d @ cs0 @ refreshCalls d @
                            (if showToast d then [presetToast appliedCount] else [])\<rparr>))))"

text \<open>
  The reset hook of the application is \<^verbatim>\<open>Character.resetAllJointRotations()\<close>
  (\<^verbatim>\<open>character/Character.js\<close>, in \<^verbatim>\<open>src/controls/modes.js\<close>): for every joint,
  \<^verbatim>\<open>j.rotation.set(0, 0, 0); j.quaternion.identity()\<close>. The identity quaternion is
  (0, 0, 0, 1); the Euler rotation of a joint, which three.js keeps in step with its
  quaternion, is not part of the model.
\<close>

definition identityQuat :: quat where
  "identityQuat = \<lparr>qx = JNum ''0'', qy = JNum ''0'', qz = JNum ''0'', qw = JNum ''1''\<rparr>"

definition Character_resetAllJointRotations :: "joint list \<Rightarrow> joint list" where
  "Character_resetAllJointRotations js = map (\<lambda>j. j\<lparr>jquat := identityQuat\<rparr>) js"

section \<open>Importing a pack of pose files\<close>

text \<open>
  A file handle: its name (\<open>None\<close> when the handle or its name is null or undefined) and
  what \<^verbatim>\<open>await file.text()\<close> gives (\<open>None\<close> when the read fails).
\<close>

record posefile =
  fname :: "string option"
  ftext :: "string option"

text \<open>
  The dependencies of the import. \<open>applyPoseFn\<close> and \<open>saveToGallery\<close> are the caller's
  code on the caller's state \<open>'s\<close>; either may throw. The calls the import itself makes
  to the other hooks and to \<^verbatim>\<open>console.warn\<close> are returned as a list.
\<close>

record 's import_deps =
  applyPoseFn :: "(jsval \<Rightarrow> 's \<Rightarrow> (error + unit) \<times> 's) option"
  saveToGallery :: "(string \<Rightarrow> bool \<Rightarrow> 's \<Rightarrow> (error + unit) \<times> 's) option"
  renderGallery :: bool
  importShowToast :: bool

text \<open>\<^verbatim>\<open>name.replace(/\.json$/i, "")\<close>.\<close>

definition stripJson :: "string \<Rightarrow> string" where
  "stripJson nm =
     (if endsWith (toLowerCase nm) ''.json'' then take (length nm - 5) nm else nm)"

text \<open>
  The body of the \<^verbatim>\<open>try\<close> block up to \<^verbatim>\<open>imported++\<close>. \<open>parse\<close> is \<^verbatim>\<open>JSON.parse\<close>, which
  returns a value or throws a SyntaxError.
\<close>

definition importTry ::
  "(string \<Rightarrow> jsval option) \<Rightarrow> 's import_deps \<Rightarrow> posefile \<Rightarrow> string \<Rightarrow> 's \<Rightarrow> (error + unit) \<times> 's" where
  "importTry parse dp f nm s =
     (case ftext f of
        None \<Rightarrow> (Inl ReadError, s)
      | Some text \<Rightarrow>
          (case parse text of
             None \<Rightarrow> (Inl SyntaxError, s)
           | Some data \<Rightarrow>
               (case (case applyPoseFn dp of None \<Rightarrow> (Inr (), s) | Some ap \<Rightarrow> ap data s) of
                  (Inl e, s1) \<Rightarrow> (Inl e, s1)
                | (Inr u, s1) \<Rightarrow>
                    (case saveToGallery dp of
                       None \<Rightarrow> (Inr (), s1)
                     | Some sv \<Rightarrow> sv (stripJson nm) False s1))))"

text \<open>One round of the \<^verbatim>\<open>for\<close> loop; the state is the counter, the caller's state and the calls.\<close>

definition importStep ::
  "(string \<Rightarrow> jsval option) \<Rightarrow> 's import_deps \<Rightarrow> nat \<times> 's \<times> call list \<Rightarrow> posefile
     \<Rightarrow> nat \<times> 's \<times> call list" where
  "importStep parse dp st f =
     (case st of (imported, s, cs) \<Rightarrow>
       (case fname f of
          None \<Rightarrow> (imported, s, cs)
        | Some nm \<Rightarrow>
            if \<not> endsWith (toLowerCase nm) ''.json'' then (imported, s, cs)
            else (case importTry parse dp f nm s of
                    (Inl e, s') \<Rightarrow> (imported, s', cs @ [ConsoleWarn nm e])
                  | (Inr u, s') \<Rightarrow> (imported + 1, s', cs))))"

text \<open>A candidate: \<^verbatim>\<open>file?.name?.toLowerCase().endsWith(".json")\<close> holds.\<close>

definition isCandidate :: "posefile \<Rightarrow> bool" where
  "isCandidate f =
     (case fname f of None \<Rightarrow> False | Some nm \<Rightarrow> endsWith (toLowerCase nm) ''.json'')"

definition summaryToast :: "nat \<Rightarrow> call" where
  "summaryToast imported =
     (if imported > 0
      then ShowToast (''Imported '' @ string_of_nat imported @ '' pose'' @
                      (if imported > 1 then ''s'' else [])) None
      else ShowToast ''No valid poses imported'' None)"

text \<open>
  \<^verbatim>\<open>importPosePack(files, deps)\<close>. \<open>files\<close> is \<open>None\<close> for a null or undefined argument.
  The first component of the result is the value the promise resolves to: \<open>None\<close> for
  \<^verbatim>\<open>undefined\<close>.
\<close>

definition importPosePack ::
  "(string \<Rightarrow> jsval option) \<Rightarrow> 's import_deps \<Rightarrow> posefile list option \<Rightarrow> 's
     \<Rightarrow> nat option \<times> 's \<times> call list" where
  "importPosePack parse dp files s =
     (case files of
        None \<Rightarrow> (None, s, [])
      | Some fs \<Rightarrow>
          if length fs = 0 then (None, s, [])
          else (case foldl (importStep parse dp) (0, s, []) fs of
                  (imported, s', cs) \<Rightarrow>
                    (Some imported, s',
                     cs @ (if renderGallery dp then [RenderGallery] else []) @
                       (if importShowToast dp then [summaryToast imported] else []))))"

section \<open>Vocabulary of the specification\<close>

text \<open>The live joints and props a set of dependencies gives access to.\<close>

definition liveJoints :: "deps \<Rightarrow> joint list" where
  "liveJoints d =
     (case world d of None \<Rightarrow> [] | Some w \<Rightarrow> (case joints w of None \<Rightarrow> [] | Some js \<Rightarrow> js))"

definition liveProps :: "deps \<Rightarrow> propobj list" where
  "liveProps d =
     (case world d of None \<Rightarrow> [] | Some w \<Rightarrow> (case props w of None \<Rightarrow> [] | Some ps \<Rightarrow> ps))"

text \<open>A non-null structured value: an object or an array.\<close>

definition isStructured :: "jsval \<Rightarrow> bool" where
  "isStructured v = (case v of JArr xs \<Rightarrow> True | JObj kvs \<Rightarrow> True | _ \<Rightarrow> False)"

text \<open>A world with joint and prop collections is supplied.\<close>

definition worldSupplied :: "deps \<Rightarrow> bool" where
  "worldSupplied d =
     (case world d of None \<Rightarrow> False | Some w \<Rightarrow> joints w \<noteq> None \<and> props w \<noteq> None)"

text \<open>
  The error kinds of the specification are the messages of the \<^verbatim>\<open>Error\<close> objects the
  module throws.
\<close>

definition InvalidPoseError :: error where
  "InvalidPoseError = Error ''Invalid pose JSON''"

definition MissingWorldError :: error where
  "MissingWorldError = Error ''applyPose: missing world''"

definition MissingSceneError :: error where
  "MissingSceneError = Error ''applyPose: missing scene''"

definition InvalidPresetError :: error where
  "InvalidPresetError = Error ''Pose missing joints''"

definition validationError :: "error \<Rightarrow> bool" where
  "validationError e = (case e of Error m \<Rightarrow> True | _ \<Rightarrow> False)"

text \<open>The number of live joints whose name the document maps to a 4-element array.\<close>

definition matchCount :: "jsval \<Rightarrow> joint list \<Rightarrow> nat" where
  "matchCount data js =
     length (filter (\<lambda>j. isQuatArray (js_get (js_get data ''joints'') (jname j))) js)"

text \<open>The joints once the reset hook, if one is supplied, has run.\<close>

definition resetJoints :: "deps \<Rightarrow> joint list \<Rightarrow> joint list" where
  "resetJoints d js = (case resetAllJointRotations d of None \<Rightarrow> js | Some r \<Rightarrow> r js)"

text \<open>The loop of the import from its initial state, and the kinds of calls it records.\<close>

definition importLoop ::
  "(string \<Rightarrow> jsval option) \<Rightarrow> 's import_deps \<Rightarrow> posefile list \<Rightarrow> 's \<Rightarrow> nat \<times> 's \<times> call list" where
  "importLoop parse dp fs s = foldl (importStep parse dp) (0, s, []) fs"

definition isWarn :: "call \<Rightarrow> bool" where
  "isWarn c = (case c of ConsoleWarn nm e \<Rightarrow> True | _ \<Rightarrow> False)"

definition isToast :: "call \<Rightarrow> bool" where
  "isToast c = (case c of ShowToast msg ms \<Rightarrow> True | _ \<Rightarrow> False)"

text \<open>
  What an import leaves behind: the number it returns (none for \<^verbatim>\<open>undefined\<close>), the
  caller's state, and the warnings it logged.
\<close>

definition importedCount :: "nat option \<times> 's \<times> call list \<Rightarrow> nat" where
  "importedCount r = (case fst r of None \<Rightarrow> 0 | Some k \<Rightarrow> k)"

definition finalState :: "nat option \<times> 's \<times> call list \<Rightarrow> 's" where
  "finalState r = fst (snd r)"

definition warnings :: "nat option \<times> 's \<times> call list \<Rightarrow> call list" where
  "warnings r = filter isWarn (snd (snd r))"

text \<open>
  The close of an import (specification, section 4.4): one re-render of the gallery if the
  hook is supplied, then one summary notification if the hook is supplied, with the count
  or, for zero, the message that no valid pose was imported.
\<close>

definition closingCalls :: "'s import_deps \<Rightarrow> nat \<Rightarrow> call list" where
  "closingCalls dp k =
     (if renderGallery dp then [RenderGallery] else []) @
     (if importShowToast dp
      then [if k = 0 then ShowToast ''No valid poses imported'' None
            else ShowToast (''Imported '' @ string_of_nat k @ '' pose'' @
                            (if k = 1 then [] else ''s'')) None]
      else [])"

text \<open>The apply hook and the gallery hook on a parsed document, when they are supplied.\<close>

definition runApply :: "'s import_deps \<Rightarrow> jsval \<Rightarrow> 's \<Rightarrow> (error + unit) \<times> 's" where
  "runApply dp data s = (case applyPoseFn dp of None \<Rightarrow> (Inr (), s) | Some ap \<Rightarrow> ap data s)"

definition runSave :: "'s import_deps \<Rightarrow> string \<Rightarrow> 's \<Rightarrow> (error + unit) \<times> 's" where
  "runSave dp nm s =
     (case saveToGallery dp of None \<Rightarrow> (Inr (), s) | Some sv \<Rightarrow> sv (stripJson nm) False s)"

text \<open>
  A batch that carries on past one of its files (specification, section 4.4): the result
  of importing the files \<open>pre\<close>, one more file and the files \<open>post\<close>, when that file adds
  \<open>k\<close> to the count, logs \<open>ws\<close> and leaves the caller's state \<open>s1\<close>. The files before it
  are imported from the initial state \<open>s0\<close> and the files after it from \<open>s1\<close>; the counts
  add up, the warnings come in the order of the files, and the batch closes once.
\<close>

definition continued ::
  "(string \<Rightarrow> jsval option) \<Rightarrow> 's import_deps \<Rightarrow> posefile list \<Rightarrow> 's \<Rightarrow> nat \<Rightarrow> call list
     \<Rightarrow> posefile list \<Rightarrow> 's \<Rightarrow> nat option \<times> 's \<times> call list" where
  "continued parse dp pre s0 k ws post s1 =
     (Some (importedCount (importPosePack parse dp (Some pre) s0) + k +
            importedCount (importPosePack parse dp (Some post) s1)),
      finalState (importPosePack parse dp (Some post) s1),
      warnings (importPosePack parse dp (Some pre) s0) @ ws @
      warnings (importPosePack parse dp (Some post) s1) @
      closingCalls dp (importedCount (importPosePack parse dp (Some pre) s0) + k +
                       importedCount (importPosePack parse dp (Some post) s1)))"

text \<open>
  Modelled from the spec: the prop factory is code of the application, not of this module;
  its contract (section 6) is that a call "appends exactly one new prop to world.props and
  to the scene".
\<close>

definition keepsContract :: "factory \<Rightarrow> bool" where
  "keepsContract f = (\<forall>t ps sc. \<exists>p. f t (ps, sc) = (ps @ [p], sc @ [ident p]))"

text \<open>
  The key of a prop (specification, section 4.2): the type trimmed and in lower case, or,
  when that is blank, the type inferred from the name.
\<close>

definition specKey :: "string \<Rightarrow> string \<Rightarrow> string" where
  "specKey ty nm =
     (let t = toLowerCase (trim ty)
      in if t \<noteq> [] then t else first_match code_keywords (toLowerCase nm))"

definition descKey :: "jsval \<Rightarrow> string" where
  "descKey pd =
     specKey (stringOf (orEmpty (js_get_opt pd ''type'')))
             (stringOf (orEmpty (js_get_opt pd ''name'')))"

text \<open>
  A descriptor whose key can be computed and used: it is neither null nor undefined, its
  type converts to a string and, if the type is blank, so does its name.
\<close>

definition plainDesc :: "jsval \<Rightarrow> bool" where
  "plainDesc pd =
     (\<not> nullish pd \<and> converts (orEmpty (js_get_opt pd ''type'')) \<and>
      (toLowerCase (trim (stringOf (orEmpty (js_get_opt pd ''type'')))) \<noteq> [] \<or>
       converts (orEmpty (js_get_opt pd ''name''))))"

text \<open>
  The rebuild in the words of the specification (section 4.2): for each descriptor in
  document order the factory is called with the key; the most recently appended entry of
  the prop collection then receives the type tag, the marker of a pose prop and the
  descriptor's transform; a descriptor after whose factory call the collection is empty
  is skipped.
\<close>

definition configureLast :: "jsval \<Rightarrow> propobj list \<times> nat list \<Rightarrow> propobj list \<times> nat list" where
  "configureLast pd st =
     (case st of (ps, sc) \<Rightarrow>
        if ps = [] then (ps, sc)
        else (butlast ps @ [copyTransform pd (tagProp (descKey pd) (last ps))], sc))"

fun rebuild :: "factory \<Rightarrow> jsval list \<Rightarrow> propobj list \<times> nat list \<Rightarrow> propobj list \<times> nat list" where
  "rebuild f [] st = st"
| "rebuild f (pd # pds) st = rebuild f pds (configureLast pd (f (descKey pd) st))"

text \<open>
  The type of a live prop (specification, section 4.1): the stored type tag if there is
  one, otherwise the type inferred from the name. A prop is storable when the serializer
  can record that type: the conversion it needs returns.
\<close>

definition storedType :: "propobj \<Rightarrow> jsval" where
  "storedType p = (case userData p of None \<Rightarrow> JUndefined | Some u \<Rightarrow> ud_type u)"

definition propType :: "propobj \<Rightarrow> string" where
  "propType p =
     (if truthy (storedType p) then stringOf (storedType p)
      else first_match code_keywords (toLowerCase (stringOf (orEmpty (pname p)))))"

definition storable :: "propobj \<Rightarrow> bool" where
  "storable p =
     (if truthy (storedType p) then converts (storedType p) else converts (orEmpty (pname p)))"

text \<open>The descriptor of a prop in a pose document (specification, section 6).\<close>

definition recorded :: "propobj \<Rightarrow> jsval" where
  "recorded p =
     JObj [(''type'', JStr (propType p)),
           (''name'', orEmpty (pname p)),
           (''position'', vec3_toArray (position p)),
           (''quaternion'', quat_toArray (pquat p)),
           (''scale'', vec3_toArray (scale p))]"

text \<open>
  The type the applier gives the prop rebuilt from the serialization of a prop, and the
  props for which it can compute it.
\<close>

definition appliedType :: "propobj \<Rightarrow> string" where
  "appliedType p = specKey (propType p) (stringOf (orEmpty (pname p)))"

definition keyable :: "propobj \<Rightarrow> bool" where
  "keyable p =
     (storable p \<and>
      (toLowerCase (trim (propType p)) \<noteq> [] \<or> converts (orEmpty (pname p))))"

text \<open>A type the applier does not change: non-empty, trimmed and in lower case.\<close>

definition normalType :: "string \<Rightarrow> bool" where
  "normalType t = (t \<noteq> [] \<and> toLowerCase (trim t) = t)"

text \<open>The document a successful serialization returns.\<close>

definition serialized :: "string \<Rightarrow> deps \<Rightarrow> jsval" where
  "serialized now d = (case serializePose now d of Inr doc \<Rightarrow> doc | Inl e \<Rightarrow> JUndefined)"


section \<open>An example world\<close>

definition quatOf :: "string \<Rightarrow> string \<Rightarrow> string \<Rightarrow> string \<Rightarrow> quat" where
  "quatOf a b c e = \<lparr>qx = JNum a, qy = JNum b, qz = JNum c, qw = JNum e\<rparr>"

definition vecOf :: "string \<Rightarrow> string \<Rightarrow> string \<Rightarrow> vec3" where
  "vecOf a b c = \<lparr>vx = JNum a, vy = JNum b, vz = JNum c\<rparr>"

definition exJoints :: "joint list" where
  "exJoints =
     [\<lparr>jname = ''head'', jquat = quatOf ''0.5'' ''0.5'' ''0.5'' ''0.5''\<rparr>,
      \<lparr>jname = ''spine'', jquat = quatOf ''0'' ''1'' ''0'' ''0''\<rparr>]"

text \<open>
  A prop factory that keeps its contract: each call appends one new prop, at the origin,
  to the collection and to the scene, under an identity the scene does not hold yet.
\<close>

definition newProp :: "string \<Rightarrow> nat \<Rightarrow> propobj" where
  "newProp t n =
     \<lparr>ident = n, pname = JStr t,
      userData = Some \<lparr>ud_type = JStr t, isProp = JBool True\<rparr>,
      position = vecOf ''0'' ''0'' ''0'', pquat = identityQuat,
      scale = vecOf ''1'' ''1'' ''1''\<rparr>"

definition exFactory :: factory where
  "exFactory t st =
     (case st of (ps, sc) \<Rightarrow>
        (ps @ [newProp t (Suc (fold max sc 0))], sc @ [Suc (fold max sc 0)]))"


definition exProp :: propobj where
  "exProp =
     \<lparr>ident = 1, pname = JStr ''Ball'',
      userData = Some \<lparr>ud_type = JStr ''Sphere'', isProp = JBool True\<rparr>,
      position = vecOf ''1'' ''2'' ''3'', pquat = quatOf ''0'' ''0'' ''1'' ''0'',
      scale = vecOf ''2'' ''2'' ''2''\<rparr>"

text \<open>Child 0 of the scene is the character; child 1 is the prop.\<close>

definition exDeps :: deps where
  "exDeps =
     \<lparr>world = Some \<lparr>joints = Some exJoints, props = Some [exProp]\<rparr>,
      scene = Some [0, 1], poseNotesEl = Some ''a note'', addProp = Some exFactory,
      showToast = True, updateOutline = True, forceRenderOnce = True,
      resetAllJointRotations = Some Character_resetAllJointRotations, calls = []\<rparr>"

text \<open>The example world of a caller that supplies no reset hook.\<close>

definition bareDeps :: deps where
  "bareDeps = exDeps\<lparr>resetAllJointRotations := None\<rparr>"

text \<open>A document that poses the head only.\<close>

definition headDoc :: jsval where
  "headDoc =
     JObj [(''joints'',
            JObj [(''head'', JArr [JNum ''0'', JNum ''0'', JNum ''0.6'', JNum ''0.8'']),
                  (''tail'', JArr [JNum ''1'', JNum ''0'', JNum ''0'', JNum ''0'']),
                  (''spine'', JArr [JNum ''1'', JNum ''2'', JNum ''3''])])]"

text \<open>A document whose only joint name is no live joint's.\<close>

definition strayDoc :: jsval where
  "strayDoc =
     JObj [(''joints'',
            JObj [(''tail'', JArr [JNum ''1'', JNum ''0'', JNum ''0'', JNum ''0''])])]"

text \<open>
  An import into the example world: the state is the dependencies of \<^verbatim>\<open>applyPose\<close> and
  the names saved to the gallery; the parser knows three texts.
\<close>

definition exParse :: "string \<Rightarrow> jsval option" where
  "exParse t =
     (if t = ''{}'' then Some (JObj [])
      else if t = ''head'' then Some headDoc
      else if t = ''null'' then Some JNull
      else None)"

definition exImportDeps :: "(deps \<times> string list) import_deps" where
  "exImportDeps =
     \<lparr>applyPoseFn = Some (\<lambda>data s. case s of (d, g) \<Rightarrow>
                       (fst (applyPose data d), (snd (applyPose data d), g))),
      saveToGallery = Some (\<lambda>nm withToast s. case s of (d, g) \<Rightarrow> (Inr (), (d, g @ [nm]))),
      renderGallery = True, importShowToast = True\<rparr>"

definition fileOne :: posefile where
  "fileOne = \<lparr>fname = Some ''one.json'', ftext = Some ''{}''\<rparr>"

definition fileTwo :: posefile where
  "fileTwo = \<lparr>fname = Some ''two.JSON'', ftext = Some ''{bad''\<rparr>"

definition fileThree :: posefile where
  "fileThree = \<lparr>fname = Some ''three.json'', ftext = Some ''head''\<rparr>"

definition fileNull :: posefile where
  "fileNull = \<lparr>fname = Some ''void.json'', ftext = Some ''null''\<rparr>"

definition readme :: posefile where
  "readme = \<lparr>fname = Some ''readme.txt'', ftext = Some ''{}''\<rparr>"

text \<open>A pose file that cannot be read.\<close>

definition fileLost :: posefile where
  "fileLost = \<lparr>fname = Some ''lost.json'', ftext = None\<rparr>"

text \<open>The example world once the empty document has been applied to it.\<close>

definition loadedDeps :: deps where
  "loadedDeps =
     exDeps\<lparr>calls := [UpdateOutline, ForceRenderOnce, ShowToast ''Pose loaded'' None]\<rparr>"

text \<open>
  A fresh world of the same structure as the example world: the same joints at rest, no
  props, only the character in the scene.
\<close>

definition freshDeps :: deps where
  "freshDeps =
     exDeps\<lparr>world := Some \<lparr>joints = Some (Character_resetAllJointRotations exJoints),
                             props = Some []\<rparr>,
            scene := Some [0], poseNotesEl := Some [], calls := []\<rparr>"







text \<open>The example world with the prop's type in the form the applier writes.\<close>

definition tidyDeps :: deps where
  "tidyDeps =
     exDeps\<lparr>world := Some \<lparr>joints = Some exJoints,
                             props = Some [exProp\<lparr>userData :=
                               Some \<lparr>ud_type = JStr ''sphere'', isProp = JBool True\<rparr>\<rparr>]\<rparr>\<rparr>"

section \<open>Properties\<close>

subsection \<open>Strings\<close>

lemma startsWith_prefix: "startsWith s k \<longleftrightarrow> prefix k s"
  by (induction s k rule: startsWith.induct) auto

lemma str_includes_sublist: "str_includes s k \<longleftrightarrow> sublist k s"
  by (induction s) (auto simp: startsWith_prefix sublist_Cons_right)

lemmas lower_simps = toLowerCase_def lower_char_def

lemma collect_Inl: "collect rs = Inl e \<Longrightarrow> Inl e \<in> set rs"
  by (induction rs rule: collect.induct) (auto split: sum.splits)

lemma collect_Inr: "collect (map Inr xs) = Inr xs"
  by (induction xs) auto

lemma collect_map_Inr:
  "(\<And>x. x \<in> set xs \<Longrightarrow> f x = Inr (g x)) \<Longrightarrow> collect (map f xs) = Inr (map g xs)"
  by (induction xs) auto

lemma js_to_string_err: "js_to_string v = Inl e \<Longrightarrow> e = TypeError"
proof (induction v arbitrary: e rule: js_to_string.induct)
  case (6 xs)
  then obtain e' where "collect (map (\<lambda>x. if nullish x then Inr [] else js_to_string x) xs) = Inl e'"
     and "e' = e"
    by (auto split: sum.splits)
  then have "Inl e \<in> set (map (\<lambda>x. if nullish x then Inr [] else js_to_string x) xs)"
    using collect_Inl by fastforce
  then obtain x where "x \<in> set xs" "\<not> nullish x" "js_to_string x = Inl e"
    by (auto split: if_splits)
  then show ?case using 6 by blast
qed (auto split: option.splits)

lemma converts_stringOf: "converts v \<Longrightarrow> js_to_string v = Inr (stringOf v)"
  by (simp add: converts_def stringOf_def split: sum.splits)

lemma not_converts: "\<not> converts v \<Longrightarrow> js_to_string v = Inl TypeError"
  by (auto simp: converts_def split: sum.splits dest: js_to_string_err)

lemma converts_JStr [simp]: "converts (JStr s)" "stringOf (JStr s) = s"
  by (simp_all add: converts_def stringOf_def)

subsection \<open>Prop type inference\<close>

lemma inferType_as_table:
  "inferTypeFromLegacyName p_name =
     (case js_to_string (orEmpty p_name) of
        Inl e \<Rightarrow> Inl e
      | Inr str \<Rightarrow> Inr (first_match code_keywords (toLowerCase str)))"
  by (simp add: inferTypeFromLegacyName_def code_keywords_def orEmpty_def Let_def
        str_includes_sublist split: sum.splits)

lemma inferType_converts:
  "converts (orEmpty p_name) \<Longrightarrow>
   inferTypeFromLegacyName p_name =
     Inr (first_match code_keywords (toLowerCase (stringOf (orEmpty p_name))))"
  by (simp add: inferType_as_table converts_stringOf)

lemma inferType_throws:
  "\<not> converts (orEmpty p_name) \<Longrightarrow> inferTypeFromLegacyName p_name = Inl TypeError"
  by (simp add: inferType_as_table not_converts)

lemma first_match_nonempty:
  "list_all (\<lambda>kt. snd kt \<noteq> []) tbl \<Longrightarrow> first_match tbl n \<noteq> []"
  by (induction tbl) (auto split: if_splits)

lemma code_match_nonempty: "first_match code_keywords n \<noteq> []"
  by (rule first_match_nonempty) (simp add: code_keywords_def)

text \<open>
  C4, as stated: the keyword list of the specification has \<open>cylinder\<close> where the code
  looks for \<open>cyl\<close>. A prop named \<open>Cyl_01\<close> is a cylinder for the code and, by the
  list as the specification gives it, matches no keyword and would be a cube.
\<close>

theorem inferType_cylinder_counterexample:
  "inferTypeFromLegacyName (JStr ''Cyl_01'') = Inr ''cylinder'' \<and>
   first_match spec_keywords (toLowerCase ''Cyl_01'') = ''cube''"
  by (simp add: inferTypeFromLegacyName_def spec_keywords_def lower_simps
        str_includes_sublist [symmetric])

text \<open>
  C4, amended: type inference is ordered substring matching of the lowercased name against
  the keyword list sphere, cube/box, cyl (giving cylinder), cone, torus, ring, disc/circle,
  plane, icosa, octa, dodeca, tetra; the first match wins and the default is cube. The
  name is \<^verbatim>\<open>String(p?.name || "")\<close>, and the inference throws when that conversion does.
  A prop named \<open>MySphere_02\<close> infers sphere and one named \<open>weird_blob\<close> infers cube.
\<close>

theorem inferType_first_match:
  "inferTypeFromLegacyName p_name =
     (case js_to_string (orEmpty p_name) of
        Inl e \<Rightarrow> Inl e
      | Inr str \<Rightarrow> Inr (first_match code_keywords (toLowerCase str))) \<and>
   inferTypeFromLegacyName (JStr ''MySphere_02'') = Inr ''sphere'' \<and>
   inferTypeFromLegacyName (JStr ''weird_blob'') = Inr ''cube'' \<and>
   inferTypeFromLegacyName (JObj [(''toString'', JNum ''1'')]) = Inl TypeError"
proof -
  have "inferTypeFromLegacyName p_name =
     (case js_to_string (orEmpty p_name) of
        Inl e \<Rightarrow> Inl e
      | Inr str \<Rightarrow> Inr (first_match code_keywords (toLowerCase str)))"
    by (rule inferType_as_table)
  moreover have "inferTypeFromLegacyName (JStr ''MySphere_02'') = Inr ''sphere''"
    by (simp add: inferTypeFromLegacyName_def lower_simps)
  moreover have "inferTypeFromLegacyName (JStr ''weird_blob'') = Inr ''cube''"
    by (simp add: inferTypeFromLegacyName_def lower_simps)
  moreover have "inferTypeFromLegacyName (JObj [(''toString'', JNum ''1'')]) = Inl TypeError"
    by (simp add: inferTypeFromLegacyName_def)
  ultimately show ?thesis by simp
qed

subsection \<open>Validation\<close>

lemma structured_iff: "isStructured v \<longleftrightarrow> truthy v \<and> typeof_object v"
  by (cases v) (auto simp: isStructured_def)

lemma js_get_unstructured: "\<not> isStructured dj \<Longrightarrow> \<not> isQuatArray (js_get dj k)"
  by (cases dj) (auto simp: isStructured_def isQuatArray_def split: option.splits)

lemma applyJoints_map: "applyJoints dj js = map (applyJoint dj) js"
proof (cases "isStructured dj")
  case True then show ?thesis by (simp add: applyJoints_def structured_iff)
next
  case False
  then have "applyJoint dj j = j" for j
    by (simp add: applyJoint_def Let_def js_get_unstructured)
  with False show ?thesis by (simp add: applyJoints_def structured_iff map_idI)
qed

lemma inferType_err: "inferTypeFromLegacyName v = Inl e \<Longrightarrow> e = TypeError"
  by (auto simp: inferType_as_table split: sum.splits dest: js_to_string_err)

lemma propTypeKey_err: "propTypeKey pd = Inl e \<Longrightarrow> e = TypeError"
  by (auto simp: propTypeKey_def Let_def split: sum.splits if_splits
        dest: js_to_string_err inferType_err)

lemma applyPropDesc_err: "fst (applyPropDesc f pd st) = Some e \<Longrightarrow> e = TypeError"
  by (auto simp: applyPropDesc_def Let_def split: prod.splits option.splits if_splits sum.splits
        dest: propTypeKey_err)

lemma applyPropDescs_err: "fst (applyPropDescs f pds st) = Some e \<Longrightarrow> e = TypeError"
proof (induction pds arbitrary: st)
  case Nil then show ?case by simp
next
  case (Cons pd pds)
  obtain r st' where step: "applyPropDesc f pd st = (r, st')"
    by (cases "applyPropDesc f pd st") auto
  show ?case
  proof (cases r)
    case None
    with step Cons.prems have "fst (applyPropDescs f pds st') = Some e" by simp
    then show ?thesis by (rule Cons.IH)
  next
    case (Some e')
    with step Cons.prems have "e' = e" by simp
    with Some step have "fst (applyPropDesc f pd st) = Some e" by simp
    then show ?thesis by (rule applyPropDesc_err)
  qed
qed

lemma applyProps_err: "fst (applyProps f dp st) = Some e \<Longrightarrow> e = TypeError"
  by (cases st; cases dp) (auto simp: applyProps_def dest: applyPropDescs_err)

lemma applyPose_validation:
  "applyPose data d =
     (if \<not> isStructured data then (Inl InvalidPoseError, d)
      else if \<not> worldSupplied d then (Inl MissingWorldError, d)
      else if scene d = None then (Inl MissingSceneError, d)
      else applyPose data d)"
  by (auto simp: applyPose_def structured_iff worldSupplied_def InvalidPoseError_def
        MissingWorldError_def MissingSceneError_def split: option.splits)

lemma applyProps_err': "applyProps f dp st = (Some e, r) \<Longrightarrow> e = TypeError"
  using applyProps_err [of f dp st e] by simp

lemma applyPose_valid_result:
  assumes "isStructured data" "worldSupplied d" "scene d \<noteq> None"
  shows "fst (applyPose data d) = Inr () \<or> fst (applyPose data d) = Inl TypeError"
  using assms
  by (auto simp: applyPose_def structured_iff worldSupplied_def Let_def
        split: option.splits prod.splits dest: applyProps_err')

lemma applyPose_Error_unchanged:
  "fst (applyPose data d) = Inl (Error m) \<Longrightarrow> snd (applyPose data d) = d"
proof (cases "isStructured data \<and> worldSupplied d \<and> scene d \<noteq> None")
  case True
  then have "fst (applyPose data d) = Inr () \<or> fst (applyPose data d) = Inl TypeError"
    by (simp add: applyPose_valid_result)
  moreover assume "fst (applyPose data d) = Inl (Error m)"
  ultimately show ?thesis by auto
next
  case False
  then show ?thesis
    by (subst applyPose_validation) auto
qed

lemma applyPoseJointsOnly_valid_result:
  assumes "isStructured data" "isStructured (js_get data ''joints'')"
      "world d = Some w" "joints w = Some js"
  shows "\<exists>n. fst (applyPoseJointsOnly data d) = Inr n"
  using assms
  by (auto simp: applyPoseJointsOnly_def structured_iff Let_def split: prod.splits)

lemma applyPoseJointsOnly_error_unchanged:
  "fst (applyPoseJointsOnly data d) = Inl e \<Longrightarrow> snd (applyPoseJointsOnly data d) = d"
  by (auto simp: applyPoseJointsOnly_def Let_def split: option.splits prod.splits if_splits)

lemma applyPoseJointsOnly_frame_props:
  "map_option props (world (snd (applyPoseJointsOnly data d))) = map_option props (world d)"
  by (auto simp: applyPoseJointsOnly_def Let_def split: option.splits prod.splits if_splits)

lemma applyPoseJointsOnly_frame_rest:
  "poseNotesEl (snd (applyPoseJointsOnly data d)) = poseNotesEl d \<and>
   scene (snd (applyPoseJointsOnly data d)) = scene d"
  by (auto simp: applyPoseJointsOnly_def Let_def split: option.splits prod.splits if_splits)

subsection \<open>The joint step\<close>

lemma applyJointsCount_eq:
  "applyJointsCount dj js n =
     (map (applyJoint dj) js, n + length (filter (\<lambda>j. isQuatArray (js_get dj (jname j))) js))"
  by (induction js arbitrary: n) (auto simp: applyJoint_def Let_def)

lemma quat_roundtrip: "quat_fromArray (quat_toArray q) = q"
  by (simp add: quat_fromArray_def quat_toArray_def)

lemma vec3_roundtrip: "vec3_fromArray (vec3_toArray v) = v"
  by (simp add: vec3_fromArray_def vec3_toArray_def)

lemma quat_toArray_fromArray:
  "length q = 4 \<Longrightarrow> quat_toArray (quat_fromArray (JArr q)) = JArr q"
  by (cases q; simp; rename_tac a q1, case_tac q1; simp; rename_tac b q2, case_tac q2; simp;
      rename_tac c q3, case_tac q3; simp add: quat_fromArray_def quat_toArray_def)

lemma applyPose_liveJoints:
  assumes "isStructured data" "worldSupplied d" "scene d \<noteq> None"
  shows "liveJoints (snd (applyPose data d)) = map (applyJoint (js_get data ''joints'')) (liveJoints d)"
  using assms
  by (auto simp: applyPose_def structured_iff worldSupplied_def liveJoints_def Let_def applyJoints_map
        split: option.splits prod.splits)

lemma applyJoint_cases:
  "jname (applyJoint dj j) = jname j \<and>
   (isQuatArray (js_get dj (jname j)) \<longrightarrow> quat_toArray (jquat (applyJoint dj j)) = js_get dj (jname j)) \<and>
   (\<not> isQuatArray (js_get dj (jname j)) \<longrightarrow> applyJoint dj j = j)"
  by (auto simp: applyJoint_def Let_def isQuatArray_def quat_toArray_fromArray split: jsval.splits)

text \<open>
  C2: after a full apply that passed validation, the live joints are the same joints in
  the same order; a joint whose name \<^verbatim>\<open>document.joints\<close> maps to a 4-element array has
  that array for its orientation, whatever it was before; a joint whose name is absent, or
  whose entry is an array of another length (or no array at all), is exactly as it was.
  This holds also when the prop step throws afterwards.
\<close>

theorem applyPose_partial_joint_overwrite:
  assumes "isStructured data" "worldSupplied d" "scene d \<noteq> None"
  shows "length (liveJoints (snd (applyPose data d))) = length (liveJoints d) \<and>
    (\<forall>i < length (liveJoints d).
       jname (liveJoints (snd (applyPose data d)) ! i) = jname (liveJoints d ! i) \<and>
       (\<forall>q. js_get (js_get data ''joints'') (jname (liveJoints d ! i)) = JArr q \<and> length q = 4 \<longrightarrow>
          quat_toArray (jquat (liveJoints (snd (applyPose data d)) ! i)) = JArr q) \<and>
       (js_get (js_get data ''joints'') (jname (liveJoints d ! i)) = JUndefined \<or>
        (\<exists>q. js_get (js_get data ''joints'') (jname (liveJoints d ! i)) = JArr q \<and> length q \<noteq> 4) \<longrightarrow>
          jquat (liveJoints (snd (applyPose data d)) ! i) = jquat (liveJoints d ! i)) \<and>
       (\<not> isQuatArray (js_get (js_get data ''joints'') (jname (liveJoints d ! i))) \<longrightarrow>
          liveJoints (snd (applyPose data d)) ! i = liveJoints d ! i))"
proof -
  let ?dj = "js_get data ''joints''"
  have eq: "liveJoints (snd (applyPose data d)) = map (applyJoint ?dj) (liveJoints d)"
    using assms by (rule applyPose_liveJoints)
  have step: "jname (applyJoint ?dj j) = jname j \<and>
       (\<forall>q. js_get ?dj (jname j) = JArr q \<and> length q = 4 \<longrightarrow>
          quat_toArray (jquat (applyJoint ?dj j)) = JArr q) \<and>
       (js_get ?dj (jname j) = JUndefined \<or>
        (\<exists>q. js_get ?dj (jname j) = JArr q \<and> length q \<noteq> 4) \<longrightarrow>
          jquat (applyJoint ?dj j) = jquat j) \<and>
       (\<not> isQuatArray (js_get ?dj (jname j)) \<longrightarrow> applyJoint ?dj j = j)" for j
    using applyJoint_cases [of ?dj j] by (auto simp: isQuatArray_def)
  show ?thesis
    unfolding eq using step by simp
qed

text \<open>
  C2 at work: the head is overwritten; the spine, whose entry has three elements, is not.
\<close>

theorem applyPose_partial_joint_overwrite_witness:
  "isStructured headDoc \<and> worldSupplied exDeps \<and> scene exDeps \<noteq> None \<and>
   liveJoints exDeps = exJoints \<and>
   quat_toArray (jquat (liveJoints (snd (applyPose headDoc exDeps)) ! 0)) =
     JArr [JNum ''0'', JNum ''0'', JNum ''0.6'', JNum ''0.8''] \<and>
   liveJoints (snd (applyPose headDoc exDeps)) ! 1 = exJoints ! 1"
proof -
  have h1: "isStructured headDoc" by (simp add: headDoc_def isStructured_def)
  have h2: "worldSupplied exDeps" by (simp add: exDeps_def worldSupplied_def)
  have h3: "scene exDeps \<noteq> None" by (simp add: exDeps_def)
  have lj: "liveJoints exDeps = exJoints" by (simp add: liveJoints_def exDeps_def)
  have e0: "js_get (js_get headDoc ''joints'') (jname (exJoints ! 0)) =
      JArr [JNum ''0'', JNum ''0'', JNum ''0.6'', JNum ''0.8'']"
    by (simp add: headDoc_def exJoints_def)
  have e1: "\<not> isQuatArray (js_get (js_get headDoc ''joints'') (jname (exJoints ! 1)))"
    by (simp add: headDoc_def exJoints_def isQuatArray_def)
  have len: "length exJoints = 2" by (simp add: exJoints_def)
  note t = applyPose_partial_joint_overwrite [OF h1 h2 h3, unfolded lj]
  from t e0 len have a0: "quat_toArray (jquat (liveJoints (snd (applyPose headDoc exDeps)) ! 0)) =
     JArr [JNum ''0'', JNum ''0'', JNum ''0.6'', JNum ''0.8'']"
    by auto
  from t e1 len have a1: "liveJoints (snd (applyPose headDoc exDeps)) ! 1 = exJoints ! 1"
    by auto
  from h1 h2 h3 lj a0 a1 show ?thesis by simp
qed

text \<open>
  C5: on a valid document \<^verbatim>\<open>applyPoseJointsOnly\<close> first calls the reset hook, if one is
  supplied, then overwrites the joints the document maps to a 4-element array, exactly as
  the joint step of the full apply does on the joints the hook left; it returns the number
  of joints so matched; the call of the reset hook, if any, comes first, and the
  notification, when a notification hook is supplied, is the zero-match message when the
  count is zero and the message with the count otherwise. With the reset of the character
  for a hook every live joint is first set to the identity, so that a joint the document
  does not match ends at the identity; with no hook the joints are overwritten where they
  stand. A document none of whose joint names is a live joint's returns 0.
\<close>

theorem applyPoseJointsOnly_reset_then_apply:
  assumes "isStructured data" and "isStructured (js_get data ''joints'')"
    and "world d = Some w" and "joints w = Some js"
  shows "applyPoseJointsOnly data d =
      (Inr (matchCount data (resetJoints d js)),
       d\<lparr>world := Some (w\<lparr>joints := Some (applyJoints (js_get data ''joints'') (resetJoints d js))\<rparr>),
         calls := calls d @
           (if resetAllJointRotations d = None then [] else [ResetAllJointRotations]) @
           refreshCalls d @
           (if showToast d
            then [if matchCount data (resetJoints d js) = 0
                  then ShowToast ''Preset loaded (no matching joints)'' (Some 2000)
                  else ShowToast (''Preset loaded ('' @
                         string_of_nat (matchCount data (resetJoints d js)) @ '' joints)'') None]
            else [])\<rparr>) \<and>
    liveJoints (snd (applyPoseJointsOnly data d)) =
      map (applyJoint (js_get data ''joints'')) (resetJoints d js) \<and>
    (resetAllJointRotations d = Some Character_resetAllJointRotations \<longrightarrow>
       fst (applyPoseJointsOnly data d) = Inr (matchCount data js) \<and>
       liveJoints (snd (applyPoseJointsOnly data d)) =
         map (\<lambda>j. applyJoint (js_get data ''joints'') (j\<lparr>jquat := identityQuat\<rparr>)) js \<and>
       (\<forall>j \<in> set (liveJoints (snd (applyPoseJointsOnly data d))).
          \<not> isQuatArray (js_get (js_get data ''joints'') (jname j)) \<longrightarrow> jquat j = identityQuat)) \<and>
    (resetAllJointRotations d = None \<longrightarrow>
       fst (applyPoseJointsOnly data d) = Inr (matchCount data js) \<and>
       liveJoints (snd (applyPoseJointsOnly data d)) =
         map (applyJoint (js_get data ''joints'')) js) \<and>
    ((\<forall>j \<in> set (resetJoints d js). js_get (js_get data ''joints'') (jname j) = JUndefined) \<longrightarrow>
       fst (applyPoseJointsOnly data d) = Inr 0)"
proof -
  let ?dj = "js_get data ''joints''"
  let ?js0 = "resetJoints d js"
  let ?R = "Character_resetAllJointRotations"
  have run: "applyPoseJointsOnly data d =
      (Inr (matchCount data ?js0),
       d\<lparr>world := Some (w\<lparr>joints := Some (map (applyJoint ?dj) ?js0)\<rparr>),
         calls := calls d @
           (if resetAllJointRotations d = None then [] else [ResetAllJointRotations]) @
           refreshCalls d @
           (if showToast d then [presetToast (matchCount data ?js0)] else [])\<rparr>)"
    using assms
    by (cases "resetAllJointRotations d")
       (simp_all add: applyPoseJointsOnly_def structured_iff applyJointsCount_eq matchCount_def
          resetJoints_def Let_def)
  have 1: "applyPoseJointsOnly data d =
      (Inr (matchCount data ?js0),
       d\<lparr>world := Some (w\<lparr>joints := Some (applyJoints ?dj ?js0)\<rparr>),
         calls := calls d @
           (if resetAllJointRotations d = None then [] else [ResetAllJointRotations]) @
           refreshCalls d @
           (if showToast d
            then [if matchCount data ?js0 = 0
                  then ShowToast ''Preset loaded (no matching joints)'' (Some 2000)
                  else ShowToast (''Preset loaded ('' @
                         string_of_nat (matchCount data ?js0) @ '' joints)'') None]
            else [])\<rparr>)"
    unfolding run by (simp add: applyJoints_map presetToast_def)
  have 2: "liveJoints (snd (applyPoseJointsOnly data d)) = map (applyJoint ?dj) ?js0"
    unfolding run by (simp add: liveJoints_def)
  have names: "filter (\<lambda>j. isQuatArray (js_get ?dj (jname j))) (?R js)
      = ?R (filter (\<lambda>j. isQuatArray (js_get ?dj (jname j))) js)"
    by (induction js) (auto simp: Character_resetAllJointRotations_def)
  have cnt: "matchCount data (?R js) = matchCount data js"
    unfolding matchCount_def names by (simp add: Character_resetAllJointRotations_def)
  have unmatched: "jquat j = identityQuat"
    if "j \<in> set (map (applyJoint ?dj) (?R js))" "\<not> isQuatArray (js_get ?dj (jname j))" for j
    using that by (auto simp: Character_resetAllJointRotations_def applyJoint_def Let_def
        split: if_splits)
  have 3: "resetAllJointRotations d = Some ?R \<longrightarrow>
       fst (applyPoseJointsOnly data d) = Inr (matchCount data js) \<and>
       liveJoints (snd (applyPoseJointsOnly data d)) =
         map (\<lambda>j. applyJoint ?dj (j\<lparr>jquat := identityQuat\<rparr>)) js \<and>
       (\<forall>j \<in> set (liveJoints (snd (applyPoseJointsOnly data d))).
          \<not> isQuatArray (js_get ?dj (jname j)) \<longrightarrow> jquat j = identityQuat)"
  proof
    assume h: "resetAllJointRotations d = Some ?R"
    then have r: "?js0 = ?R js" by (simp add: resetJoints_def)
    show "fst (applyPoseJointsOnly data d) = Inr (matchCount data js) \<and>
       liveJoints (snd (applyPoseJointsOnly data d)) =
         map (\<lambda>j. applyJoint ?dj (j\<lparr>jquat := identityQuat\<rparr>)) js \<and>
       (\<forall>j \<in> set (liveJoints (snd (applyPoseJointsOnly data d))).
          \<not> isQuatArray (js_get ?dj (jname j)) \<longrightarrow> jquat j = identityQuat)"
      unfolding 2 unfolding run r using unmatched
      by (simp add: cnt) (simp add: Character_resetAllJointRotations_def comp_def)
  qed
  have 4: "resetAllJointRotations d = None \<longrightarrow>
       fst (applyPoseJointsOnly data d) = Inr (matchCount data js) \<and>
       liveJoints (snd (applyPoseJointsOnly data d)) = map (applyJoint ?dj) js"
    unfolding 2 unfolding run by (simp add: resetJoints_def)
  have 5: "(\<forall>j \<in> set ?js0. js_get ?dj (jname j) = JUndefined) \<longrightarrow>
       fst (applyPoseJointsOnly data d) = Inr 0"
    unfolding run by (simp add: matchCount_def isQuatArray_def)
  show ?thesis by (intro conjI 1 2 3 4 5)
qed

text \<open>
  C5 at work: with the reset of the character for a hook the head matches and the spine is
  left at the identity; with no hook the spine keeps its orientation; and a document with
  no live joint's name gives 0 and the zero-match message.
\<close>

theorem applyPoseJointsOnly_reset_then_apply_witness:
  "isStructured headDoc \<and> isStructured (js_get headDoc ''joints'') \<and>
   resetAllJointRotations exDeps = Some Character_resetAllJointRotations \<and>
   fst (applyPoseJointsOnly headDoc exDeps) = Inr 1 \<and>
   map jquat (liveJoints (snd (applyPoseJointsOnly headDoc exDeps))) =
     [quatOf ''0'' ''0'' ''0.6'' ''0.8'', identityQuat] \<and>
   calls (snd (applyPoseJointsOnly headDoc exDeps)) =
     [ResetAllJointRotations, UpdateOutline, ForceRenderOnce,
      ShowToast ''Preset loaded (1 joints)'' None] \<and>
   resetAllJointRotations bareDeps = None \<and>
   fst (applyPoseJointsOnly headDoc bareDeps) = Inr 1 \<and>
   map jquat (liveJoints (snd (applyPoseJointsOnly headDoc bareDeps))) =
     [quatOf ''0'' ''0'' ''0.6'' ''0.8'', quatOf ''0'' ''1'' ''0'' ''0''] \<and>
   calls (snd (applyPoseJointsOnly headDoc bareDeps)) =
     [UpdateOutline, ForceRenderOnce, ShowToast ''Preset loaded (1 joints)'' None] \<and>
   fst (applyPoseJointsOnly strayDoc exDeps) = Inr 0 \<and>
   calls (snd (applyPoseJointsOnly strayDoc exDeps)) =
     [ResetAllJointRotations, UpdateOutline, ForceRenderOnce,
      ShowToast ''Preset loaded (no matching joints)'' (Some 2000)]"
proof -
  let ?w = "\<lparr>joints = Some exJoints, props = Some [exProp]\<rparr>"
  have g1: "isStructured strayDoc" by (simp add: strayDoc_def isStructured_def)
  have g2: "isStructured (js_get strayDoc ''joints'')" by (simp add: strayDoc_def isStructured_def)
  have h1: "isStructured headDoc" by (simp add: headDoc_def isStructured_def)
  have h2: "isStructured (js_get headDoc ''joints'')" by (simp add: headDoc_def isStructured_def)
  have h3: "world exDeps = Some ?w" by (simp add: exDeps_def)
  have b3: "world bareDeps = Some ?w" by (simp add: bareDeps_def exDeps_def)
  have h4: "joints ?w = Some exJoints" by simp
  have h5: "resetAllJointRotations exDeps = Some Character_resetAllJointRotations"
    by (simp add: exDeps_def)
  have b5: "resetAllJointRotations bareDeps = None" by (simp add: bareDeps_def)
  have rj: "resetJoints exDeps exJoints = Character_resetAllJointRotations exJoints"
    by (simp add: resetJoints_def h5)
  have rb: "resetJoints bareDeps exJoints = exJoints"
    by (simp add: resetJoints_def b5)
  have mc0: "matchCount strayDoc (Character_resetAllJointRotations exJoints) = 0"
    by (simp add: matchCount_def strayDoc_def exJoints_def isQuatArray_def
          Character_resetAllJointRotations_def)
  have mc: "matchCount headDoc exJoints = 1"
    by (simp add: matchCount_def headDoc_def exJoints_def isQuatArray_def)
  have mcr: "matchCount headDoc (Character_resetAllJointRotations exJoints) = 1"
    by (simp add: matchCount_def headDoc_def exJoints_def isQuatArray_def
          Character_resetAllJointRotations_def)
  have cs: "calls exDeps = [] \<and> refreshCalls exDeps = [UpdateOutline, ForceRenderOnce] \<and>
      showToast exDeps"
    by (simp add: exDeps_def refreshCalls_def)
  have cb: "calls bareDeps = [] \<and> refreshCalls bareDeps = [UpdateOutline, ForceRenderOnce] \<and>
      showToast bareDeps"
    by (simp add: bareDeps_def exDeps_def refreshCalls_def)
  have s1: "string_of_nat (Suc 0) = ''1''" by (simp add: string_of_nat.simps digit_char_def)
  note t = applyPoseJointsOnly_reset_then_apply [OF h1 h2 h3 h4, unfolded rj mcr]
  note b = applyPoseJointsOnly_reset_then_apply [OF h1 h2 b3 h4, unfolded rb mc]
  note u = applyPoseJointsOnly_reset_then_apply [OF g1 g2 h3 h4, unfolded rj mc0]
  have t1: "fst (applyPoseJointsOnly headDoc exDeps) = Inr 1"
    using t [THEN conjunct1] by simp
  have t2: "map jquat (liveJoints (snd (applyPoseJointsOnly headDoc exDeps))) =
     [quatOf ''0'' ''0'' ''0.6'' ''0.8'', identityQuat]"
    unfolding t [THEN conjunct2, THEN conjunct1]
    by (simp add: headDoc_def exJoints_def applyJoint_def isQuatArray_def quat_fromArray_def
          quatOf_def Character_resetAllJointRotations_def)
  have t3: "calls (snd (applyPoseJointsOnly headDoc exDeps)) =
     [ResetAllJointRotations, UpdateOutline, ForceRenderOnce,
      ShowToast ''Preset loaded (1 joints)'' None]"
    unfolding t [THEN conjunct1] by (simp add: cs s1 h5)
  have b1: "fst (applyPoseJointsOnly headDoc bareDeps) = Inr 1"
    using b [THEN conjunct1] by simp
  have b2: "map jquat (liveJoints (snd (applyPoseJointsOnly headDoc bareDeps))) =
     [quatOf ''0'' ''0'' ''0.6'' ''0.8'', quatOf ''0'' ''1'' ''0'' ''0'']"
    unfolding b [THEN conjunct2, THEN conjunct1]
    by (simp add: headDoc_def exJoints_def applyJoint_def isQuatArray_def quat_fromArray_def
          quatOf_def)
  have b4: "calls (snd (applyPoseJointsOnly headDoc bareDeps)) =
     [UpdateOutline, ForceRenderOnce, ShowToast ''Preset loaded (1 joints)'' None]"
    unfolding b [THEN conjunct1] by (simp add: cb s1 b5)
  have u1: "fst (applyPoseJointsOnly strayDoc exDeps) = Inr 0"
    using u [THEN conjunct1] by simp
  have u3: "calls (snd (applyPoseJointsOnly strayDoc exDeps)) =
     [ResetAllJointRotations, UpdateOutline, ForceRenderOnce,
      ShowToast ''Preset loaded (no matching joints)'' (Some 2000)]"
    unfolding u [THEN conjunct1] by (simp add: cs h5)
  show ?thesis
    by (intro conjI h1 h2 h5 t1 t2 t3 b5 b1 b2 b4 u1 u3)
qed

subsection \<open>Failing fast\<close>

text \<open>
  C10: whenever \<^verbatim>\<open>applyPose\<close> throws one of its validation errors, or
  \<^verbatim>\<open>applyPoseJointsOnly\<close> throws at all, the state is exactly what it was: every joint,
  the prop collection, the scene, the notes and the list of hook calls (so the reset hook
  has not run either). Every check comes before the first mutation.
\<close>

theorem apply_validation_atomic:
  "(validationError e \<and> fst (applyPose data d) = Inl e \<longrightarrow> snd (applyPose data d) = d) \<and>
   (fst (applyPoseJointsOnly data d) = Inl e \<longrightarrow> snd (applyPoseJointsOnly data d) = d)"
  by (cases e) (auto simp: validationError_def applyPose_Error_unchanged
        applyPoseJointsOnly_error_unchanged)

text \<open>
  C10 at work: a pose applied without a scene, and a preset without a joints map, on the
  example world.
\<close>

theorem apply_validation_atomic_witness:
  "validationError MissingSceneError \<and>
   fst (applyPose headDoc (exDeps\<lparr>scene := None\<rparr>)) = Inl MissingSceneError \<and>
   snd (applyPose headDoc (exDeps\<lparr>scene := None\<rparr>)) = exDeps\<lparr>scene := None\<rparr> \<and>
   fst (applyPoseJointsOnly (JObj []) exDeps) = Inl InvalidPresetError \<and>
   snd (applyPoseJointsOnly (JObj []) exDeps) = exDeps"
proof -
  have v: "validationError MissingSceneError"
    by (simp add: validationError_def MissingSceneError_def)
  have a: "fst (applyPose headDoc (exDeps\<lparr>scene := None\<rparr>)) = Inl MissingSceneError"
    by (simp add: applyPose_def headDoc_def exDeps_def MissingSceneError_def)
  have b: "fst (applyPoseJointsOnly (JObj []) exDeps) = Inl InvalidPresetError"
    by (simp add: applyPoseJointsOnly_def InvalidPresetError_def)
  from apply_validation_atomic [of MissingSceneError headDoc "exDeps\<lparr>scene := None\<rparr>"] v a
  have c: "snd (applyPose headDoc (exDeps\<lparr>scene := None\<rparr>)) = exDeps\<lparr>scene := None\<rparr>"
    by simp
  from apply_validation_atomic [of InvalidPresetError "JObj []" exDeps] b
  have d: "snd (applyPoseJointsOnly (JObj []) exDeps) = exDeps"
    by simp
  from v a b c d show ?thesis by simp
qed

text \<open>
  C9: for every document and every set of dependencies, after \<^verbatim>\<open>applyPoseJointsOnly\<close> the
  prop collection with the state of each prop, the notes and the scene are what they were
  before the call, whether it returned or threw.
\<close>

theorem applyPoseJointsOnly_frame:
  "liveProps (snd (applyPoseJointsOnly data d)) = liveProps d \<and>
   map_option props (world (snd (applyPoseJointsOnly data d))) = map_option props (world d) \<and>
   poseNotesEl (snd (applyPoseJointsOnly data d)) = poseNotesEl d \<and>
   scene (snd (applyPoseJointsOnly data d)) = scene d"
proof -
  have "liveProps (snd (applyPoseJointsOnly data d)) = liveProps d"
    using applyPoseJointsOnly_frame_props [of data d]
    by (cases "world d"; cases "world (snd (applyPoseJointsOnly data d))")
       (auto simp: liveProps_def)
  then show ?thesis
    by (simp add: applyPoseJointsOnly_frame_props applyPoseJointsOnly_frame_rest)
qed

lemma headDoc_preset_count: "fst (applyPoseJointsOnly headDoc exDeps) = Inr 1"
  by (simp add: applyPoseJointsOnly_def headDoc_def exDeps_def exJoints_def Character_resetAllJointRotations_def
        isQuatArray_def)

text \<open>
  C9 at work: a preset that overwrites the head leaves the prop, the notes and the scene
  of the example world alone.
\<close>

theorem applyPoseJointsOnly_frame_witness:
  "fst (applyPoseJointsOnly headDoc exDeps) = Inr 1 \<and>
   liveProps (snd (applyPoseJointsOnly headDoc exDeps)) = [exProp] \<and>
   poseNotesEl (snd (applyPoseJointsOnly headDoc exDeps)) = Some ''a note'' \<and>
   scene (snd (applyPoseJointsOnly headDoc exDeps)) = Some [0, 1]"
proof -
  have "liveProps exDeps = [exProp] \<and> poseNotesEl exDeps = Some ''a note'' \<and>
      scene exDeps = Some [0, 1]"
    by (simp add: liveProps_def exDeps_def)
  with applyPoseJointsOnly_frame [of headDoc exDeps] headDoc_preset_count
  show ?thesis by simp
qed

text \<open>
  C8, as stated: the missing-world error is not thrown exactly when no world is supplied.
  With no world and a null document the call throws the invalid-pose error: the checks
  run in order and the first that fails decides.
\<close>

theorem apply_errors_counterexample:
  "\<not> worldSupplied (exDeps\<lparr>world := None\<rparr>) \<and>
   fst (applyPose JNull (exDeps\<lparr>world := None\<rparr>)) = Inl InvalidPoseError \<and>
   fst (applyPose JNull (exDeps\<lparr>world := None\<rparr>)) \<noteq> Inl MissingWorldError"
  by (simp add: applyPose_def exDeps_def worldSupplied_def InvalidPoseError_def
        MissingWorldError_def)

text \<open>
  C8, amended: the checks run in order and each error is thrown exactly when the earlier
  checks pass and its own fails. \<^verbatim>\<open>applyPose\<close> throws the invalid-pose error exactly when
  the document is not an object or array; the missing-world error exactly when the
  document is one and no world with joint and prop collections is supplied; the
  missing-scene error exactly when document and world pass and no scene is supplied.
  \<^verbatim>\<open>applyPoseJointsOnly\<close> throws the missing-joints error exactly when the document is an
  object or array and \<^verbatim>\<open>document.joints\<close> is neither (an array passes as a joints map).
  Each of these errors leaves the state untouched.
\<close>

theorem apply_fail_fast:
  "(fst (applyPose data d) = Inl InvalidPoseError \<longleftrightarrow> \<not> isStructured data) \<and>
   (fst (applyPose data d) = Inl MissingWorldError \<longleftrightarrow>
      isStructured data \<and> \<not> worldSupplied d) \<and>
   (fst (applyPose data d) = Inl MissingSceneError \<longleftrightarrow>
      isStructured data \<and> worldSupplied d \<and> scene d = None) \<and>
   (fst (applyPoseJointsOnly data d) = Inl InvalidPresetError \<longleftrightarrow>
      isStructured data \<and> \<not> isStructured (js_get data ''joints'')) \<and>
   ((\<exists>m. fst (applyPose data d) = Inl (Error m)) \<longrightarrow> snd (applyPose data d) = d) \<and>
   ((\<exists>e. fst (applyPoseJointsOnly data d) = Inl e) \<longrightarrow> snd (applyPoseJointsOnly data d) = d)"
proof -
  have valid: "fst (applyPose data d) = Inr () \<or> fst (applyPose data d) = Inl TypeError"
    if "isStructured data" "worldSupplied d" "scene d \<noteq> None"
    using that by (rule applyPose_valid_result)
  have 1: "fst (applyPose data d) = Inl InvalidPoseError \<longleftrightarrow> \<not> isStructured data"
    using valid by (subst applyPose_validation)
      (auto simp: InvalidPoseError_def MissingWorldError_def MissingSceneError_def)
  have 2: "fst (applyPose data d) = Inl MissingWorldError \<longleftrightarrow>
      isStructured data \<and> \<not> worldSupplied d"
    using valid by (subst applyPose_validation)
      (auto simp: InvalidPoseError_def MissingWorldError_def MissingSceneError_def)
  have 3: "fst (applyPose data d) = Inl MissingSceneError \<longleftrightarrow>
      isStructured data \<and> worldSupplied d \<and> scene d = None"
    using valid by (subst applyPose_validation)
      (auto simp: InvalidPoseError_def MissingWorldError_def MissingSceneError_def)
  have 4: "fst (applyPoseJointsOnly data d) = Inl InvalidPresetError \<longleftrightarrow>
      isStructured data \<and> \<not> isStructured (js_get data ''joints'')"
    by (auto simp: applyPoseJointsOnly_def structured_iff InvalidPresetError_def Let_def
          split: option.splits prod.splits)
  have 5: "(\<exists>m. fst (applyPose data d) = Inl (Error m)) \<longrightarrow> snd (applyPose data d) = d"
    by (auto dest: applyPose_Error_unchanged)
  have 6: "(\<exists>e. fst (applyPoseJointsOnly data d) = Inl e) \<longrightarrow>
      snd (applyPoseJointsOnly data d) = d"
    by (auto dest: applyPoseJointsOnly_error_unchanged)
  show ?thesis by (intro conjI 1 2 3 4 5 6)
qed

text \<open>
  C8 at work: a string for a document, a number for a joints map, and an array for a
  joints map, which is accepted.
\<close>

theorem apply_fail_fast_witness:
  "fst (applyPose (JStr ''pose'') exDeps) = Inl InvalidPoseError \<and>
   snd (applyPose (JStr ''pose'') exDeps) = exDeps \<and>
   fst (applyPoseJointsOnly (JObj [(''joints'', JNum ''7'')]) exDeps) = Inl InvalidPresetError \<and>
   snd (applyPoseJointsOnly (JObj [(''joints'', JNum ''7'')]) exDeps) = exDeps \<and>
   fst (applyPoseJointsOnly (JObj [(''joints'', JArr [])]) exDeps) \<noteq> Inl InvalidPresetError"
proof -
  note t1 = apply_fail_fast [of "JStr ''pose''" exDeps]
  note t2 = apply_fail_fast [of "JObj [(''joints'', JNum ''7'')]" exDeps]
  note t3 = apply_fail_fast [of "JObj [(''joints'', JArr [])]" exDeps]
  have s1: "\<not> isStructured (JStr ''pose'')" by (simp add: isStructured_def)
  have s2: "isStructured (JObj [(''joints'', JNum ''7'')]) \<and>
      \<not> isStructured (js_get (JObj [(''joints'', JNum ''7'')]) ''joints'')"
    by (simp add: isStructured_def)
  have s3: "isStructured (js_get (JObj [(''joints'', JArr [])]) ''joints'')"
    by (simp add: isStructured_def)
  from t1 s1 have a: "fst (applyPose (JStr ''pose'') exDeps) = Inl InvalidPoseError" by simp
  with t1 have b: "snd (applyPose (JStr ''pose'') exDeps) = exDeps"
    by (simp add: InvalidPoseError_def)
  from t2 s2 have c: "fst (applyPoseJointsOnly (JObj [(''joints'', JNum ''7'')]) exDeps) = Inl InvalidPresetError"
    by simp
  with t2 have e: "snd (applyPoseJointsOnly (JObj [(''joints'', JNum ''7'')]) exDeps) = exDeps"
    by simp
  from t3 s3 have f: "fst (applyPoseJointsOnly (JObj [(''joints'', JArr [])]) exDeps) \<noteq> Inl InvalidPresetError"
    by simp
  from a b c e f show ?thesis by simp
qed

subsection \<open>The import\<close>

lemma endsWith_suffix: "endsWith s k \<longleftrightarrow> suffix k s"
  by (simp add: endsWith_def startsWith_prefix suffix_to_prefix)

lemma isCandidate_suffix:
  "isCandidate f \<longleftrightarrow> (\<exists>nm. fname f = Some nm \<and> suffix ''.json'' (toLowerCase nm))"
  by (auto simp: isCandidate_def endsWith_suffix split: option.splits)

lemma importStep_shift:
  "importStep parse dp (n, s, cs) f =
     (case importStep parse dp (0, s, []) f of (k, s', ws) \<Rightarrow> (n + k, s', cs @ ws))"
  by (auto simp: importStep_def split: option.splits prod.splits sum.splits)

lemma importFold_shift:
  "foldl (importStep parse dp) (n, s, cs) fs =
     (case foldl (importStep parse dp) (0, s, []) fs of (k, s', ws) \<Rightarrow> (n + k, s', cs @ ws))"
proof (induction fs arbitrary: n s cs)
  case Nil
  then show ?case by simp
next
  case (Cons f fs)
  obtain k1 s1 w1 where st: "importStep parse dp (0, s, []) f = (k1, s1, w1)"
    by (cases "importStep parse dp (0, s, []) f") auto
  obtain k2 s2 w2 where rest: "foldl (importStep parse dp) (0, s1, []) fs = (k2, s2, w2)"
    by (cases "foldl (importStep parse dp) (0, s1, []) fs") auto
  have a: "importStep parse dp (n, s, cs) f = (n + k1, s1, cs @ w1)"
    by (subst importStep_shift) (simp add: st)
  have b: "foldl (importStep parse dp) (n + k1, s1, cs @ w1) fs = (n + k1 + k2, s2, (cs @ w1) @ w2)"
    by (subst Cons.IH) (simp add: rest)
  have c: "foldl (importStep parse dp) (k1, s1, w1) fs = (k1 + k2, s2, w1 @ w2)"
    by (subst Cons.IH) (simp add: rest)
  show ?case by (simp add: a b st c)
qed

lemma importStep_warns:
  "importStep parse dp (n, s, cs) f = (n', s', cs') \<Longrightarrow> list_all isWarn cs \<Longrightarrow> list_all isWarn cs'"
  by (auto simp: importStep_def isWarn_def split: option.splits prod.splits sum.splits if_splits)

lemma importFold_warns:
  "foldl (importStep parse dp) (n, s, cs) fs = (n', s', cs') \<Longrightarrow> list_all isWarn cs \<Longrightarrow>
   list_all isWarn cs'"
proof (induction fs arbitrary: n s cs)
  case Nil
  then show ?case by simp
next
  case (Cons f fs)
  obtain n1 s1 cs1 where step: "importStep parse dp (n, s, cs) f = (n1, s1, cs1)"
    by (cases "importStep parse dp (n, s, cs) f") auto
  from importStep_warns [OF step Cons.prems(2)] have "list_all isWarn cs1" .
  moreover from Cons.prems(1) step
  have "foldl (importStep parse dp) (n1, s1, cs1) fs = (n', s', cs')" by simp
  ultimately show ?case by (rule Cons.IH [rotated])
qed

lemma importLoop_warns:
  "importLoop parse dp fs s = (k, s', c) \<Longrightarrow> list_all isWarn c"
  unfolding importLoop_def by (erule importFold_warns) simp

lemma filter_warns: "list_all isWarn c \<Longrightarrow> filter isWarn c = c"
  by (induction c) auto

lemma closingCalls_summary:
  "closingCalls dp k =
     (if renderGallery dp then [RenderGallery] else []) @
     (if importShowToast dp then [summaryToast k] else [])"
proof -
  have "k > 1 \<longleftrightarrow> k \<noteq> 1" if "k \<noteq> 0" using that by auto
  then show ?thesis by (auto simp: closingCalls_def summaryToast_def)
qed

lemma closingCalls_no_warn: "filter isWarn (closingCalls dp k) = []"
  by (simp add: closingCalls_def isWarn_def)

lemma importPosePack_loop:
  assumes "fs \<noteq> []" and "importLoop parse dp fs s = (k, s', c)"
  shows "importPosePack parse dp (Some fs) s = (Some k, s', c @ closingCalls dp k)"
  using assms by (simp add: importPosePack_def importLoop_def closingCalls_summary)

lemma import_observers:
  assumes "importLoop parse dp fs s = (k, s', c)"
  shows "importedCount (importPosePack parse dp (Some fs) s) = k"
    and "finalState (importPosePack parse dp (Some fs) s) = s'"
    and "warnings (importPosePack parse dp (Some fs) s) = c"
proof -
  have w: "filter isWarn c = c"
    using importLoop_warns [OF assms] by (rule filter_warns)
  show "importedCount (importPosePack parse dp (Some fs) s) = k"
    using assms by (cases "fs = []")
      (auto simp: importPosePack_loop importedCount_def, auto simp: importPosePack_def importLoop_def)
  show "finalState (importPosePack parse dp (Some fs) s) = s'"
    using assms by (cases "fs = []")
      (auto simp: importPosePack_loop finalState_def, auto simp: importPosePack_def importLoop_def)
  show "warnings (importPosePack parse dp (Some fs) s) = c"
    using assms w by (cases "fs = []")
      (auto simp: importPosePack_loop warnings_def closingCalls_no_warn,
       auto simp: importPosePack_def importLoop_def)
qed

lemma importPosePack_continued:
  assumes "importStep parse dp (0, finalState (importPosePack parse dp (Some pre) s0), []) f =
      (k, s1, ws)"
  shows "importPosePack parse dp (Some (pre @ f # post)) s0 =
      continued parse dp pre s0 k ws post s1"
proof -
  obtain n s cs where a: "importLoop parse dp pre s0 = (n, s, cs)"
    by (cases "importLoop parse dp pre s0") auto
  obtain k2 s2 w2 where b: "importLoop parse dp post s1 = (k2, s2, w2)"
    by (cases "importLoop parse dp post s1") auto
  note oa = import_observers [OF a]
  note ob = import_observers [OF b]
  from assms have st: "importStep parse dp (0, s, []) f = (k, s1, ws)"
    by (simp add: oa)
  have st': "importStep parse dp (n, s, cs) f = (n + k, s1, cs @ ws)"
    by (subst importStep_shift) (simp add: st)
  have "foldl (importStep parse dp) (n + k, s1, cs @ ws) post = (n + k + k2, s2, (cs @ ws) @ w2)"
    using b by (subst importFold_shift) (simp add: importLoop_def)
  then have loop: "importLoop parse dp (pre @ f # post) s0 = (n + k + k2, s2, cs @ ws @ w2)"
    using a st' by (simp add: importLoop_def)
  have "importPosePack parse dp (Some (pre @ f # post)) s0 =
      (Some (n + k + k2), s2, (cs @ ws @ w2) @ closingCalls dp (n + k + k2))"
    by (rule importPosePack_loop [OF _ loop]) simp
  then show ?thesis
    by (simp add: continued_def oa ob)
qed

lemma importStep_skipped:
  "\<not> isCandidate f \<Longrightarrow> importStep parse dp (0, s, []) f = (0, s, [])"
  by (auto simp: importStep_def isCandidate_def split: option.splits)

lemma importStep_read_error:
  "isCandidate f \<Longrightarrow> fname f = Some nm \<Longrightarrow> ftext f = None \<Longrightarrow>
   importStep parse dp (0, s, []) f = (0, s, [ConsoleWarn nm ReadError])"
  by (simp add: importStep_def isCandidate_def importTry_def)

lemma importStep_parse_error:
  "isCandidate f \<Longrightarrow> fname f = Some nm \<Longrightarrow> ftext f = Some t \<Longrightarrow> parse t = None \<Longrightarrow>
   importStep parse dp (0, s, []) f = (0, s, [ConsoleWarn nm SyntaxError])"
  by (simp add: importStep_def isCandidate_def importTry_def)

lemma importStep_apply_error:
  "isCandidate f \<Longrightarrow> fname f = Some nm \<Longrightarrow> ftext f = Some t \<Longrightarrow> parse t = Some data \<Longrightarrow>
   runApply dp data s = (Inl e, s1) \<Longrightarrow>
   importStep parse dp (0, s, []) f = (0, s1, [ConsoleWarn nm e])"
  by (auto simp: importStep_def isCandidate_def importTry_def runApply_def split: option.splits)

lemma importStep_save_error:
  "isCandidate f \<Longrightarrow> fname f = Some nm \<Longrightarrow> ftext f = Some t \<Longrightarrow> parse t = Some data \<Longrightarrow>
   runApply dp data s = (Inr (), s1) \<Longrightarrow> runSave dp nm s1 = (Inl e, s2) \<Longrightarrow>
   importStep parse dp (0, s, []) f = (0, s2, [ConsoleWarn nm e])"
  by (auto simp: importStep_def isCandidate_def importTry_def runApply_def runSave_def
        split: option.splits)

lemma importStep_imported:
  "isCandidate f \<Longrightarrow> fname f = Some nm \<Longrightarrow> ftext f = Some t \<Longrightarrow> parse t = Some data \<Longrightarrow>
   runApply dp data s = (Inr (), s1) \<Longrightarrow> runSave dp nm s1 = (Inr (), s2) \<Longrightarrow>
   importStep parse dp (0, s, []) f = (1, s2, [])"
  by (auto simp: importStep_def isCandidate_def importTry_def runApply_def runSave_def
        split: option.splits)

lemma importStep_not_imported:
  assumes "isCandidate f" and "fname f = Some nm"
    and "\<not> (\<exists>t data s1 s2. ftext f = Some t \<and> parse t = Some data \<and>
            runApply dp data s = (Inr (), s1) \<and> runSave dp nm s1 = (Inr (), s2))"
  shows "\<exists>e s1. importStep parse dp (0, s, []) f = (0, s1, [ConsoleWarn nm e])"
proof (cases "ftext f")
  case None
  with assms show ?thesis by (auto simp: importStep_read_error)
next
  case (Some t)
  show ?thesis
  proof (cases "parse t")
    case None
    with Some assms show ?thesis by (auto simp: importStep_parse_error)
  next
    case (Some data)
    obtain r1 s1 where a: "runApply dp data s = (r1, s1)"
      by (cases "runApply dp data s") auto
    show ?thesis
    proof (cases r1)
      case (Inl e)
      with a Some \<open>ftext f = Some t\<close> assms show ?thesis
        by (auto simp: importStep_apply_error)
    next
      case (Inr u)
      obtain r2 s2 where b: "runSave dp nm s1 = (r2, s2)"
        by (cases "runSave dp nm s1") auto
      show ?thesis
      proof (cases r2)
        case (Inl e)
        with a b Inr Some \<open>ftext f = Some t\<close> assms(1,2) show ?thesis
          by (auto simp: importStep_save_error)
      next
        case (Inr u')
        with a b \<open>r1 = Inr u\<close> Some \<open>ftext f = Some t\<close> assms(3) show ?thesis
          by auto
      qed
    qed
  qed
qed

lemma importStep_account:
  assumes "importStep parse dp (n, s, cs) f = (n', s', cs')"
  shows "n' + length (filter isWarn cs') =
         n + length (filter isWarn cs) + (if isCandidate f then 1 else 0)"
  using assms
  by (auto simp: importStep_def isCandidate_def isWarn_def
        split: option.splits prod.splits sum.splits if_splits)

lemma importFold_account:
  assumes "foldl (importStep parse dp) (n, s, cs) fs = (n', s', cs')"
  shows "n' + length (filter isWarn cs') =
         n + length (filter isWarn cs) + length (filter isCandidate fs)"
  using assms
proof (induction fs arbitrary: n s cs)
  case Nil
  then show ?case by simp
next
  case (Cons f fs)
  obtain n1 s1 cs1 where step: "importStep parse dp (n, s, cs) f = (n1, s1, cs1)"
    by (cases "importStep parse dp (n, s, cs) f") auto
  from importStep_account [OF step] have
    a: "n1 + length (filter isWarn cs1) =
        n + length (filter isWarn cs) + (if isCandidate f then 1 else 0)" .
  from Cons.prems step have "foldl (importStep parse dp) (n1, s1, cs1) fs = (n', s', cs')"
    by simp
  from Cons.IH [OF this] have
    b: "n' + length (filter isWarn cs') =
        n1 + length (filter isWarn cs1) + length (filter isCandidate fs)" .
  from a b show ?case by auto
qed

lemma import_account:
  "importedCount (importPosePack parse dp (Some fs) s) +
     length (warnings (importPosePack parse dp (Some fs) s)) = length (filter isCandidate fs)"
proof -
  obtain k s' c where r: "importLoop parse dp fs s = (k, s', c)"
    by (cases "importLoop parse dp fs s") auto
  have "filter isWarn c = c"
    using importLoop_warns [OF r] by (rule filter_warns)
  with importFold_account [OF r [unfolded importLoop_def]] show ?thesis
    by (simp add: import_observers [OF r])
qed

lemma import_shape:
  assumes "fs \<noteq> []"
  shows "importPosePack parse dp (Some fs) s =
      (Some (importedCount (importPosePack parse dp (Some fs) s)),
       finalState (importPosePack parse dp (Some fs) s),
       warnings (importPosePack parse dp (Some fs) s) @
       closingCalls dp (importedCount (importPosePack parse dp (Some fs) s)))"
proof -
  obtain k s' c where r: "importLoop parse dp fs s = (k, s', c)"
    by (cases "importLoop parse dp fs s") auto
  show ?thesis
    unfolding import_observers [OF r] using assms r by (rule importPosePack_loop)
qed

lemma warnings_all: "list_all isWarn (warnings r)"
  by (simp add: warnings_def list_all_iff)

lemma import_once:
  assumes "fs \<noteq> []"
  shows "count_list (snd (snd (importPosePack parse dp (Some fs) s))) RenderGallery =
      (if renderGallery dp then 1 else 0)"
    and "length (filter isToast (snd (snd (importPosePack parse dp (Some fs) s)))) =
      (if importShowToast dp then 1 else 0)"
proof -
  let ?r = "importPosePack parse dp (Some fs) s"
  have noR: "count_list c RenderGallery = 0" if "list_all isWarn c" for c
    using that by (induction c) (auto simp: isWarn_def)
  have noT: "filter isToast c = []" if "list_all isWarn c" for c
    using that by (induction c) (auto simp: isWarn_def isToast_def split: call.splits)
  have calls: "snd (snd ?r) = warnings ?r @ closingCalls dp (importedCount ?r)"
    by (subst import_shape [OF assms]) simp
  show "count_list (snd (snd ?r)) RenderGallery = (if renderGallery dp then 1 else 0)"
    unfolding calls by (simp add: noR [OF warnings_all] closingCalls_def)
  show "length (filter isToast (snd (snd ?r))) = (if importShowToast dp then 1 else 0)"
    unfolding calls by (simp add: noT [OF warnings_all] closingCalls_def isToast_def)
qed

text \<open>
  C6: in every batch, whatever came before and whatever comes after, a candidate file
  whose processing fails is caught: it adds nothing to the count, exactly one warning is
  logged for it, with its name and the error, and the batch carries on with the remaining
  files from the state the failure left. The failures are a failed read and a failed
  parse, which leave the state as it was, an error thrown by the apply hook, and an error
  thrown by the gallery hook after a successful apply. The import still returns its count
  and closes with the re-render and the summary notification.
\<close>

theorem import_failure_isolation:
  assumes "isCandidate f" and "fname f = Some nm"
    and "s = finalState (importPosePack parse dp (Some pre) s0)"
  shows
   "(ftext f = None \<longrightarrow>
       importPosePack parse dp (Some (pre @ f # post)) s0 =
         continued parse dp pre s0 0 [ConsoleWarn nm ReadError] post s) \<and>
    (\<forall>t. ftext f = Some t \<and> parse t = None \<longrightarrow>
       importPosePack parse dp (Some (pre @ f # post)) s0 =
         continued parse dp pre s0 0 [ConsoleWarn nm SyntaxError] post s) \<and>
    (\<forall>t data e s1. ftext f = Some t \<and> parse t = Some data \<and>
       runApply dp data s = (Inl e, s1) \<longrightarrow>
       importPosePack parse dp (Some (pre @ f # post)) s0 =
         continued parse dp pre s0 0 [ConsoleWarn nm e] post s1) \<and>
    (\<forall>t data s1 e s2. ftext f = Some t \<and> parse t = Some data \<and>
       runApply dp data s = (Inr (), s1) \<and> runSave dp nm s1 = (Inl e, s2) \<longrightarrow>
       importPosePack parse dp (Some (pre @ f # post)) s0 =
         continued parse dp pre s0 0 [ConsoleWarn nm e] post s2)"
proof -
  note c = assms(1) and nm = assms(2)
  have 1: "ftext f = None \<longrightarrow>
       importPosePack parse dp (Some (pre @ f # post)) s0 =
         continued parse dp pre s0 0 [ConsoleWarn nm ReadError] post s"
    unfolding assms(3)
    by (intro impI importPosePack_continued importStep_read_error c nm)
  have 2: "\<forall>t. ftext f = Some t \<and> parse t = None \<longrightarrow>
       importPosePack parse dp (Some (pre @ f # post)) s0 =
         continued parse dp pre s0 0 [ConsoleWarn nm SyntaxError] post s"
    unfolding assms(3)
    by (intro allI impI importPosePack_continued, elim conjE)
       (rule importStep_parse_error [OF c nm])
  have 3: "\<forall>t data e s1. ftext f = Some t \<and> parse t = Some data \<and>
       runApply dp data s = (Inl e, s1) \<longrightarrow>
       importPosePack parse dp (Some (pre @ f # post)) s0 =
         continued parse dp pre s0 0 [ConsoleWarn nm e] post s1"
    unfolding assms(3)
    by (intro allI impI importPosePack_continued, elim conjE)
       (rule importStep_apply_error [OF c nm])
  have 4: "\<forall>t data s1 e s2. ftext f = Some t \<and> parse t = Some data \<and>
       runApply dp data s = (Inr (), s1) \<and> runSave dp nm s1 = (Inl e, s2) \<longrightarrow>
       importPosePack parse dp (Some (pre @ f # post)) s0 =
         continued parse dp pre s0 0 [ConsoleWarn nm e] post s2"
    unfolding assms(3)
    by (intro allI impI importPosePack_continued, elim conjE)
       (rule importStep_save_error [OF c nm])
  show ?thesis by (intro conjI 1 2 3 4)
qed

lemma applyPose_empty_doc: "applyPose (JObj []) exDeps = (Inr (), loadedDeps)"
  by (simp add: applyPose_def exDeps_def loadedDeps_def applyJoints_def applyProps_def
        applyNotes_def refreshCalls_def)

lemma applyPose_headDoc_ok: "fst (applyPose headDoc loadedDeps) = Inr ()"
  by (simp add: applyPose_def exDeps_def loadedDeps_def headDoc_def applyProps_def)

lemma candidates:
  "isCandidate fileOne \<and> isCandidate fileTwo \<and> isCandidate fileThree \<and> isCandidate fileNull \<and>
   isCandidate fileLost \<and> \<not> isCandidate readme"
  by (simp add: isCandidate_def fileOne_def fileTwo_def fileThree_def fileNull_def fileLost_def
        readme_def endsWith_def lower_simps)

lemma digits: "string_of_nat (Suc 0) = ''1''" "string_of_nat (Suc (Suc 0)) = ''2''"
  by (simp_all add: string_of_nat.simps digit_char_def)

lemma closing_example:
  "closingCalls exImportDeps 0 = [RenderGallery, ShowToast ''No valid poses imported'' None]"
  "closingCalls exImportDeps (Suc 0) = [RenderGallery, ShowToast ''Imported 1 pose'' None]"
  "closingCalls exImportDeps (Suc (Suc 0)) =
     [RenderGallery, ShowToast ''Imported 2 poses'' None]"
  by (simp_all add: closingCalls_def exImportDeps_def digits)

lemma run_fileOne:
  "runApply exImportDeps (JObj []) (exDeps, g) = (Inr (), (loadedDeps, g))"
  "runSave exImportDeps ''one.json'' (d, g) = (Inr (), (d, g @ [''one'']))"
  by (simp_all add: runApply_def runSave_def exImportDeps_def applyPose_empty_doc stripJson_def
        endsWith_def lower_simps)

lemma run_fileThree:
  "runApply exImportDeps headDoc (loadedDeps, g) = (Inr (), (snd (applyPose headDoc loadedDeps), g))"
  "runSave exImportDeps ''three.json'' (d, g) = (Inr (), (d, g @ [''three'']))"
  by (simp_all add: runApply_def runSave_def exImportDeps_def applyPose_headDoc_ok stripJson_def
        endsWith_def lower_simps)

lemma run_fileNull:
  "runApply exImportDeps JNull (d, g) = (Inl (Error ''Invalid pose JSON''), (d, g))"
  by (simp add: runApply_def exImportDeps_def applyPose_def)

lemma import_none: "importPosePack parse dp (Some []) s = (None, s, [])"
  by (simp add: importPosePack_def)

lemma observers_none:
  "importedCount (None, s, []) = 0" "finalState (None, s, []) = s" "warnings (None, s, []) = []"
  by (simp_all add: importedCount_def finalState_def warnings_def)

lemma import_fileOne:
  "importPosePack exParse exImportDeps (Some [fileOne]) (exDeps, []) =
     (Some 1, (loadedDeps, [''one'']), [RenderGallery, ShowToast ''Imported 1 pose'' None])"
proof -
  have "importStep exParse exImportDeps (0, finalState (importPosePack exParse exImportDeps (Some []) (exDeps, [])), []) fileOne =
      (1, (loadedDeps, [''one'']), [])"
    unfolding import_none observers_none
    by (rule importStep_imported [where nm = "''one.json''" and t = "''{}''" and data = "JObj []"])
       (simp_all add: candidates run_fileOne, simp_all add: fileOne_def exParse_def run_fileOne)
  from importPosePack_continued [OF this, of "[]"] show ?thesis
    by (simp add: continued_def import_none observers_none closing_example)
qed

lemma import_fileThree:
  "importPosePack exParse exImportDeps (Some [fileThree]) (loadedDeps, [''one'']) =
     (Some 1, (snd (applyPose headDoc loadedDeps), [''one'', ''three'']),
      [RenderGallery, ShowToast ''Imported 1 pose'' None])"
proof -
  have "importStep exParse exImportDeps (0, finalState (importPosePack exParse exImportDeps (Some []) (loadedDeps, [''one''])), []) fileThree =
      (1, (snd (applyPose headDoc loadedDeps), [''one''] @ [''three'']), [])"
    unfolding import_none observers_none
    by (rule importStep_imported [where nm = "''three.json''" and t = "''head''" and data = headDoc])
       (simp_all add: candidates run_fileThree,
        simp_all add: fileThree_def exParse_def run_fileThree)
  from importPosePack_continued [OF this, of "[]"] show ?thesis
    by (simp add: continued_def import_none observers_none closing_example)
qed

lemma import_fileTwo:
  "importPosePack exParse exImportDeps (Some [fileTwo]) (exDeps, []) =
     (Some 0, (exDeps, []),
      [ConsoleWarn ''two.JSON'' SyntaxError, RenderGallery,
       ShowToast ''No valid poses imported'' None])"
proof -
  have "importStep exParse exImportDeps (0, finalState (importPosePack exParse exImportDeps (Some []) (exDeps, [])), []) fileTwo =
      (0, (exDeps, []), [ConsoleWarn ''two.JSON'' SyntaxError])"
    unfolding import_none observers_none
    by (rule importStep_parse_error [where t = "''{bad''"])
       (simp_all add: candidates, simp_all add: fileTwo_def exParse_def)
  from importPosePack_continued [OF this, of "[]"] show ?thesis
    by (simp add: continued_def import_none observers_none closing_example)
qed

lemma observers_some:
  "importedCount (Some k, s, c) = k" "finalState (Some k, s, c) = s"
  by (simp_all add: importedCount_def finalState_def)

lemma warnings_example:
  "warnings (r, s, [RenderGallery, ShowToast m None]) = []"
  "warnings (r, s, [ConsoleWarn nm e, RenderGallery, ShowToast m None]) = [ConsoleWarn nm e]"
  by (simp_all add: warnings_def isWarn_def)

text \<open>
  C6 at work: three files into the example world, the second of which is not JSON: the
  import returns 2, the gallery receives the first and the third, one warning is logged
  and the summary reads 2 poses. The same with a second file that holds \<^verbatim>\<open>null\<close>, which
  \<^verbatim>\<open>applyPose\<close> refuses; and a file that cannot be read, alone in its batch, gives 0.
\<close>

theorem import_failure_isolation_witness:
  "isCandidate fileTwo \<and> fname fileTwo = Some ''two.JSON'' \<and> ftext fileTwo = Some ''{bad'' \<and>
   exParse ''{bad'' = None \<and>
   importPosePack exParse exImportDeps (Some [fileOne, fileTwo, fileThree]) (exDeps, []) =
     (Some 2, (snd (applyPose headDoc loadedDeps), [''one'', ''three'']),
      [ConsoleWarn ''two.JSON'' SyntaxError, RenderGallery,
       ShowToast ''Imported 2 poses'' None]) \<and>
   importPosePack exParse exImportDeps (Some [fileOne, fileNull, fileThree]) (exDeps, []) =
     (Some 2, (snd (applyPose headDoc loadedDeps), [''one'', ''three'']),
      [ConsoleWarn ''void.json'' (Error ''Invalid pose JSON''), RenderGallery,
       ShowToast ''Imported 2 poses'' None]) \<and>
   importPosePack exParse exImportDeps (Some [fileLost]) (exDeps, []) =
     (Some 0, (exDeps, []),
      [ConsoleWarn ''lost.json'' ReadError, RenderGallery,
       ShowToast ''No valid poses imported'' None])"
proof -
  have c: "isCandidate fileTwo" using candidates by simp
  have nm: "fname fileTwo = Some ''two.JSON''" by (simp add: fileTwo_def)
  have tx: "ftext fileTwo = Some ''{bad''" by (simp add: fileTwo_def)
  have px: "exParse ''{bad'' = None" by (simp add: exParse_def)
  have s: "(loadedDeps, [''one'']) =
      finalState (importPosePack exParse exImportDeps (Some [fileOne]) (exDeps, []))"
    by (simp add: import_fileOne observers_some)
  have e: "continued exParse exImportDeps [fileOne] (exDeps, []) 0 [ConsoleWarn n err] [fileThree]
        (loadedDeps, [''one'']) =
      (Some 2, (snd (applyPose headDoc loadedDeps), [''one'', ''three'']),
       [ConsoleWarn n err, RenderGallery, ShowToast ''Imported 2 poses'' None])" for n err
    by (simp add: continued_def import_fileOne import_fileThree observers_some warnings_example
          closing_example)
  note t = import_failure_isolation [OF c nm s, where post = "[fileThree]"]
  from t [THEN conjunct2, THEN conjunct1] tx px
  have a: "importPosePack exParse exImportDeps (Some [fileOne, fileTwo, fileThree]) (exDeps, []) =
     (Some 2, (snd (applyPose headDoc loadedDeps), [''one'', ''three'']),
      [ConsoleWarn ''two.JSON'' SyntaxError, RenderGallery,
       ShowToast ''Imported 2 poses'' None])"
    by (simp add: e)
  have c': "isCandidate fileNull" using candidates by simp
  have nm': "fname fileNull = Some ''void.json''" by (simp add: fileNull_def)
  have tx': "ftext fileNull = Some ''null'' \<and> exParse ''null'' = Some JNull"
    by (simp add: fileNull_def exParse_def)
  note t' = import_failure_isolation [OF c' nm' s, where post = "[fileThree]"]
  from t' [THEN conjunct2, THEN conjunct2, THEN conjunct1] tx'
    run_fileNull [of loadedDeps "[''one'']"]
  have b: "importPosePack exParse exImportDeps (Some [fileOne, fileNull, fileThree]) (exDeps, []) =
     (Some 2, (snd (applyPose headDoc loadedDeps), [''one'', ''three'']),
      [ConsoleWarn ''void.json'' (Error ''Invalid pose JSON''), RenderGallery,
       ShowToast ''Imported 2 poses'' None])"
    by (simp add: e)
  have c'': "isCandidate fileLost" using candidates by simp
  have nm'': "fname fileLost = Some ''lost.json''" by (simp add: fileLost_def)
  have s'': "(exDeps, []) = finalState (importPosePack exParse exImportDeps (Some []) (exDeps, []))"
    by (simp add: import_none observers_none)
  note t'' = import_failure_isolation [OF c'' nm'' s'', where post = "[]"]
  from t'' [THEN conjunct1]
  have d: "importPosePack exParse exImportDeps (Some [fileLost]) (exDeps, []) =
     (Some 0, (exDeps, []),
      [ConsoleWarn ''lost.json'' ReadError, RenderGallery,
       ShowToast ''No valid poses imported'' None])"
    by (simp add: fileLost_def continued_def import_none observers_none closing_example)
  show ?thesis by (intro conjI c nm tx px a b d)
qed

text \<open>
  C7, as stated: for the empty batch the import returns at once, before the loop: it
  returns \<^verbatim>\<open>undefined\<close>, not a count, and calls neither the re-render hook nor the
  notification hook, although both are supplied.
\<close>

theorem importPosePack_empty_counterexample:
  "renderGallery exImportDeps \<and> importShowToast exImportDeps \<and>
   importPosePack exParse exImportDeps (Some []) (exDeps, []) = (None, (exDeps, []), [])"
  by (simp add: importPosePack_def exImportDeps_def)

text \<open>
  C7, amended: an empty batch, or none, returns nothing and calls no hook. In a batch that
  is not empty each file counts for itself, whatever comes before and after it. The
  candidates are the files whose names end in \<^verbatim>\<open>.json\<close> whatever the case; a file that is
  no candidate changes nothing: not the count, not the state, not the log. A candidate
  that is read, parsed, applied and saved adds one to the count and logs nothing; any
  other candidate adds nothing to the count and logs one warning. So the number returned
  is the number of files imported, which is the number of candidates less the warnings.
  After the loop the import calls the re-render hook, if supplied, exactly once, and then
  the notification hook, if supplied, exactly once, with the count, or with the message
  that no valid pose was imported when the count is zero; the calls of the import are the
  warnings followed by this close.
\<close>

theorem importPosePack_summary:
  assumes "s = finalState (importPosePack parse dp (Some pre) s0)"
    and "r = importPosePack parse dp (Some (pre @ f # post)) s0"
  shows
   "importPosePack parse dp None s0 = (None, s0, []) \<and>
    importPosePack parse dp (Some []) s0 = (None, s0, []) \<and>
    (isCandidate f \<longleftrightarrow> (\<exists>nm. fname f = Some nm \<and> suffix ''.json'' (toLowerCase nm))) \<and>
    (\<not> isCandidate f \<longrightarrow> r = continued parse dp pre s0 0 [] post s) \<and>
    (\<forall>nm t data s1 s2. isCandidate f \<and> fname f = Some nm \<and> ftext f = Some t \<and>
       parse t = Some data \<and> runApply dp data s = (Inr (), s1) \<and>
       runSave dp nm s1 = (Inr (), s2) \<longrightarrow>
       r = continued parse dp pre s0 1 [] post s2) \<and>
    (\<forall>nm. isCandidate f \<and> fname f = Some nm \<and>
       \<not> (\<exists>t data s1 s2. ftext f = Some t \<and> parse t = Some data \<and>
             runApply dp data s = (Inr (), s1) \<and> runSave dp nm s1 = (Inr (), s2)) \<longrightarrow>
       (\<exists>e s1. r = continued parse dp pre s0 0 [ConsoleWarn nm e] post s1)) \<and>
    r = (Some (importedCount r), finalState r, warnings r @ closingCalls dp (importedCount r)) \<and>
    importedCount r + length (warnings r) = length (filter isCandidate (pre @ f # post)) \<and>
    count_list (snd (snd r)) RenderGallery = (if renderGallery dp then 1 else 0) \<and>
    length (filter isToast (snd (snd r))) = (if importShowToast dp then 1 else 0)"
proof -
  have ne: "pre @ f # post \<noteq> []" by simp
  have 1: "importPosePack parse dp None s0 = (None, s0, [])"
    by (simp add: importPosePack_def)
  have 2: "importPosePack parse dp (Some []) s0 = (None, s0, [])"
    by (rule import_none)
  have 3: "isCandidate f \<longleftrightarrow> (\<exists>nm. fname f = Some nm \<and> suffix ''.json'' (toLowerCase nm))"
    by (rule isCandidate_suffix)
  have 4: "\<not> isCandidate f \<longrightarrow> r = continued parse dp pre s0 0 [] post s"
    unfolding assms
    by (intro impI importPosePack_continued importStep_skipped)
  have 5: "\<forall>nm t data s1 s2. isCandidate f \<and> fname f = Some nm \<and> ftext f = Some t \<and>
       parse t = Some data \<and> runApply dp data s = (Inr (), s1) \<and>
       runSave dp nm s1 = (Inr (), s2) \<longrightarrow>
       r = continued parse dp pre s0 1 [] post s2"
    unfolding assms
    by (intro allI impI importPosePack_continued, elim conjE) (rule importStep_imported)
  have 6: "\<forall>nm. isCandidate f \<and> fname f = Some nm \<and>
       \<not> (\<exists>t data s1 s2. ftext f = Some t \<and> parse t = Some data \<and>
             runApply dp data s = (Inr (), s1) \<and> runSave dp nm s1 = (Inr (), s2)) \<longrightarrow>
       (\<exists>e s1. r = continued parse dp pre s0 0 [ConsoleWarn nm e] post s1)"
  proof (intro allI impI, elim conjE)
    fix nm
    assume "isCandidate f" "fname f = Some nm"
      "\<not> (\<exists>t data s1 s2. ftext f = Some t \<and> parse t = Some data \<and>
             runApply dp data s = (Inr (), s1) \<and> runSave dp nm s1 = (Inr (), s2))"
    from importStep_not_imported [OF this] obtain e s1 where
      "importStep parse dp (0, s, []) f = (0, s1, [ConsoleWarn nm e])" by blast
    then have "r = continued parse dp pre s0 0 [ConsoleWarn nm e] post s1"
      unfolding assms by (rule importPosePack_continued)
    then show "\<exists>e s1. r = continued parse dp pre s0 0 [ConsoleWarn nm e] post s1" by blast
  qed
  have 7: "r = (Some (importedCount r), finalState r,
      warnings r @ closingCalls dp (importedCount r))"
    unfolding assms by (rule import_shape [OF ne])
  have 8: "importedCount r + length (warnings r) = length (filter isCandidate (pre @ f # post))"
    unfolding assms by (rule import_account)
  have 9: "count_list (snd (snd r)) RenderGallery = (if renderGallery dp then 1 else 0)"
    unfolding assms by (rule import_once [OF ne])
  have 10: "length (filter isToast (snd (snd r))) = (if importShowToast dp then 1 else 0)"
    unfolding assms by (rule import_once [OF ne])
  show ?thesis by (intro conjI 1 2 3 4 5 6 7 8 9 10)
qed

text \<open>
  C7 at work: a pose file and a text file give one import and the message with the count;
  a broken pose file and a text file give none and the other message.
\<close>

theorem importPosePack_summary_witness:
  "\<not> isCandidate readme \<and>
   importPosePack exParse exImportDeps (Some [fileOne, readme]) (exDeps, []) =
     (Some 1, (loadedDeps, [''one'']), [RenderGallery, ShowToast ''Imported 1 pose'' None]) \<and>
   importPosePack exParse exImportDeps (Some [fileTwo, readme]) (exDeps, []) =
     (Some 0, (exDeps, []),
      [ConsoleWarn ''two.JSON'' SyntaxError, RenderGallery,
       ShowToast ''No valid poses imported'' None]) \<and>
   isCandidate fileThree \<and>
   importPosePack exParse exImportDeps (Some [readme, fileThree]) (loadedDeps, []) =
     (Some 1, (snd (applyPose headDoc loadedDeps), [''three'']),
      [RenderGallery, ShowToast ''Imported 1 pose'' None])"
proof -
  have nc: "\<not> isCandidate readme" using candidates by simp
  have s1: "(loadedDeps, [''one'']) =
      finalState (importPosePack exParse exImportDeps (Some [fileOne]) (exDeps, []))"
    by (simp add: import_fileOne observers_some)
  note t1 = importPosePack_summary [OF s1 refl, where f = readme and post = "[]"]
  from t1 [THEN conjunct2, THEN conjunct2, THEN conjunct2, THEN conjunct1] nc
  have a: "importPosePack exParse exImportDeps (Some [fileOne, readme]) (exDeps, []) =
     (Some 1, (loadedDeps, [''one'']), [RenderGallery, ShowToast ''Imported 1 pose'' None])"
    by (simp add: continued_def import_fileOne import_none observers_some observers_none
          warnings_example closing_example)
  have s2: "(exDeps, []) =
      finalState (importPosePack exParse exImportDeps (Some [fileTwo]) (exDeps, []))"
    by (simp add: import_fileTwo observers_some)
  note t2 = importPosePack_summary [OF s2 refl, where f = readme and post = "[]"]
  from t2 [THEN conjunct2, THEN conjunct2, THEN conjunct2, THEN conjunct1] nc
  have b: "importPosePack exParse exImportDeps (Some [fileTwo, readme]) (exDeps, []) =
     (Some 0, (exDeps, []),
      [ConsoleWarn ''two.JSON'' SyntaxError, RenderGallery,
       ShowToast ''No valid poses imported'' None])"
    by (simp add: continued_def import_fileTwo import_none observers_some observers_none
          warnings_example closing_example)
  have c3: "isCandidate fileThree" using candidates by simp
  have s3: "(loadedDeps, []) =
      finalState (importPosePack exParse exImportDeps (Some [readme]) (loadedDeps, []))"
    by (simp add: importPosePack_def importStep_skipped [OF nc] finalState_def)
  have e3: "importPosePack exParse exImportDeps (Some [readme]) (loadedDeps, []) =
      (Some 0, (loadedDeps, []), [RenderGallery, ShowToast ''No valid poses imported'' None])"
    by (simp add: importPosePack_def importStep_skipped [OF nc] summaryToast_def exImportDeps_def)
  have pre3: "isCandidate fileThree \<and> fname fileThree = Some ''three.json'' \<and>
      ftext fileThree = Some ''head'' \<and> exParse ''head'' = Some headDoc \<and>
      runApply exImportDeps headDoc (loadedDeps, []) =
        (Inr (), (snd (applyPose headDoc loadedDeps), [])) \<and>
      runSave exImportDeps ''three.json'' (snd (applyPose headDoc loadedDeps), []) =
        (Inr (), (snd (applyPose headDoc loadedDeps), [''three'']))"
    using c3 by (simp add: fileThree_def exParse_def run_fileThree)
  note t3 = importPosePack_summary [OF s3 refl, where f = fileThree and post = "[]"]
  from t3 [THEN conjunct2, THEN conjunct2, THEN conjunct2, THEN conjunct2, THEN conjunct1] pre3
  have "importPosePack exParse exImportDeps (Some ([readme] @ fileThree # [])) (loadedDeps, []) =
      continued exParse exImportDeps [readme] (loadedDeps, []) 1 []  []
        (snd (applyPose headDoc loadedDeps), [''three''])"
    by blast
  then have c: "importPosePack exParse exImportDeps (Some [readme, fileThree]) (loadedDeps, []) =
     (Some 1, (snd (applyPose headDoc loadedDeps), [''three'']),
      [RenderGallery, ShowToast ''Imported 1 pose'' None])"
    by (simp add: continued_def e3 import_none observers_some observers_none
          warnings_example closing_example)
  show ?thesis by (intro conjI nc a b c3 c)
qed

subsection \<open>The prop step\<close>



lemma propTypeKey_plain: "plainDesc pd \<Longrightarrow> propTypeKey pd = Inr (descKey pd)"
  by (auto simp: plainDesc_def propTypeKey_def descKey_def specKey_def Let_def
        converts_stringOf inferType_converts orEmpty_def [symmetric])

lemma update_last: "xs \<noteq> [] \<Longrightarrow> xs[length xs - Suc 0 := y] = butlast xs @ [y]"
  by (induction xs rule: rev_induct) auto

lemma applyPropDesc_plain:
  assumes "plainDesc pd"
  shows "applyPropDesc (Some f) pd (ps, sc, cs) =
     (None, fst (configureLast pd (f (descKey pd) (ps, sc))),
      snd (configureLast pd (f (descKey pd) (ps, sc))), cs @ [AddProp (descKey pd)])"
proof -
  obtain ps1 sc1 where r: "f (descKey pd) (ps, sc) = (ps1, sc1)"
    by (cases "f (descKey pd) (ps, sc)") auto
  from assms have nn: "\<not> nullish pd" by (simp add: plainDesc_def)
  show ?thesis
    using nn
    by (simp add: applyPropDesc_def propTypeKey_plain [OF assms] r configureLast_def Let_def
          update_last)
qed

lemma applyPropDescs_rebuild:
  assumes "\<forall>pd \<in> set pds. plainDesc pd"
  shows "applyPropDescs (Some f) pds (ps, sc, cs) =
     (None, fst (rebuild f pds (ps, sc)), snd (rebuild f pds (ps, sc)),
      cs @ map (\<lambda>pd. AddProp (descKey pd)) pds)"
  using assms
proof (induction pds arbitrary: ps sc cs)
  case Nil
  then show ?case by simp
next
  case (Cons pd pds)
  from Cons.prems have p: "plainDesc pd" and rest: "\<forall>pd \<in> set pds. plainDesc pd"
    by simp_all
  obtain ps1 sc1 where r: "configureLast pd (f (descKey pd) (ps, sc)) = (ps1, sc1)"
    by (cases "configureLast pd (f (descKey pd) (ps, sc))") auto
  show ?case
    by (simp add: applyPropDesc_plain [OF p] r Cons.IH [OF rest])
qed

lemma rebuild_contract:
  assumes "keepsContract f"
  shows "\<exists>news. length news = length pds \<and>
     rebuild f pds (ps, sc) =
       (ps @ map2 (\<lambda>pd p. copyTransform pd (tagProp (descKey pd) p)) pds news,
        sc @ map ident news)"
proof (induction pds arbitrary: ps sc)
  case Nil
  then show ?case by simp
next
  case (Cons pd pds)
  from assms obtain p where p: "f (descKey pd) (ps, sc) = (ps @ [p], sc @ [ident p])"
    unfolding keepsContract_def by blast
  let ?p' = "copyTransform pd (tagProp (descKey pd) p)"
  have c: "configureLast pd (f (descKey pd) (ps, sc)) = (ps @ [?p'], sc @ [ident p])"
    by (simp add: p configureLast_def)
  from Cons.IH [of "ps @ [?p']" "sc @ [ident p]"]
  obtain news where len: "length news = length pds"
    and run: "rebuild f pds (ps @ [?p'], sc @ [ident p]) =
       ((ps @ [?p']) @ map2 (\<lambda>pd p. copyTransform pd (tagProp (descKey pd) p)) pds news,
        (sc @ [ident p]) @ map ident news)"
    by blast
  have "length (p # news) = length (pd # pds) \<and>
     rebuild f (pd # pds) (ps, sc) =
       (ps @ map2 (\<lambda>pd p. copyTransform pd (tagProp (descKey pd) p)) (pd # pds) (p # news),
        sc @ map ident (p # news))"
    using len run c by simp
  then show ?case by blast
qed



lemma applyPose_valid_run:
  assumes "isStructured data" "world d = Some w" "joints w = Some js" "props w = Some ps"
    "scene d = Some sc"
    and "applyProps (addProp d) (js_get data ''props'') (ps, sc, calls d) = (None, ps', sc', cs')"
  shows "applyPose data d =
     (Inr (), d\<lparr>world := Some (w\<lparr>joints := Some (applyJoints (js_get data ''joints'') js),
                               props := Some ps'\<rparr>),
               scene := Some sc',
               poseNotesEl := applyNotes (js_get data ''notes'') (poseNotesEl d),
               calls := cs' @ refreshCalls d @
                 (if showToast d then [ShowToast ''Pose loaded'' None] else [])\<rparr>)"
  using assms by (simp add: applyPose_def structured_iff)

























subsection \<open>The round trip\<close>

lemma map_of_obj_set: "map_of (obj_set kvs k v) = (map_of kvs)(k \<mapsto> v)"
  by (induction kvs k v rule: obj_set.induct) (auto simp: fun_eq_iff)

lemma serializeJoints_fold_other:
  "k \<notin> jname ` set js \<Longrightarrow>
   map_of (foldl (\<lambda>obj j. obj_set obj (jname j) (quat_toArray (jquat j))) kvs js) k = map_of kvs k"
  by (induction js arbitrary: kvs) (auto simp: map_of_obj_set)

lemma serializeJoints_fold_lookup:
  "distinct (map jname js) \<Longrightarrow> j \<in> set js \<Longrightarrow>
   map_of (foldl (\<lambda>obj j. obj_set obj (jname j) (quat_toArray (jquat j))) kvs js) (jname j)
     = Some (quat_toArray (jquat j))"
proof (induction js arbitrary: kvs)
  case Nil
  then show ?case by simp
next
  case (Cons a js)
  show ?case
  proof (cases "j = a")
    case True
    with Cons.prems have "jname j \<notin> jname ` set js" by auto
    then show ?thesis
      using True by (simp add: serializeJoints_fold_other map_of_obj_set)
  next
    case False
    with Cons.prems have "j \<in> set js" "distinct (map jname js)" by auto
    then show ?thesis by (simp add: Cons.IH)
  qed
qed

lemma serializeJoints_lookup:
  "distinct (map jname js) \<Longrightarrow> j \<in> set js \<Longrightarrow>
   js_get (JObj (serializeJoints js)) (jname j) = quat_toArray (jquat j)"
  by (simp add: serializeJoints_def serializeJoints_fold_lookup)

lemma isQuatArray_toArray: "isQuatArray (quat_toArray q)"
  by (simp add: isQuatArray_def quat_toArray_def)

lemma applyJoint_serialized:
  assumes "distinct (map jname js)" "j \<in> set js" "jname j2 = jname j"
  shows "applyJoint (JObj (serializeJoints js)) j2 = j2\<lparr>jquat := jquat j\<rparr>"
proof -
  have e: "js_get (JObj (serializeJoints js)) (jname j2) = quat_toArray (jquat j)"
    using assms by (simp only: serializeJoints_lookup)
  show ?thesis
    unfolding applyJoint_def Let_def e by (simp add: isQuatArray_toArray quat_roundtrip)
qed

lemma joints_roundtrip:
  assumes "distinct (map jname js)" "map jname js2 = map jname js"
  shows "map jquat (map (applyJoint (JObj (serializeJoints js))) js2) = map jquat js \<and>
         map jname (map (applyJoint (JObj (serializeJoints js))) js2) = map jname js"
proof -
  have len: "length js2 = length js" using assms(2) by (metis length_map)
  have "applyJoint (JObj (serializeJoints js)) (js2 ! i) = (js2 ! i)\<lparr>jquat := jquat (js ! i)\<rparr>"
    if "i < length js" for i
  proof -
    have "jname (js2 ! i) = jname (js ! i)"
      using that len assms(2) by (metis nth_map)
    moreover have "js ! i \<in> set js" using that by simp
    ultimately show ?thesis using assms(1) by (simp add: applyJoint_serialized)
  qed
  then have "map (applyJoint (JObj (serializeJoints js))) js2 =
      map (\<lambda>i. (js2 ! i)\<lparr>jquat := jquat (js ! i)\<rparr>) [0..<length js]"
    using len by (intro nth_equalityI) simp_all
  moreover have "map jquat (map (\<lambda>i. (js2 ! i)\<lparr>jquat := jquat (js ! i)\<rparr>) [0..<length js]) = map jquat js"
    by (intro nth_equalityI) simp_all
  moreover have "map jname (map (\<lambda>i. (js2 ! i)\<lparr>jquat := jquat (js ! i)\<rparr>) [0..<length js]) = map jname js2"
    using len by (intro nth_equalityI) simp_all
  ultimately show ?thesis using assms(2) by simp
qed

lemma serializeProp_storable: "storable p \<Longrightarrow> serializeProp p = Inr (recorded p)"
  by (auto simp: storable_def serializeProp_def recorded_def propType_def storedType_def
        Let_def converts_stringOf inferType_converts orEmpty_def split: if_splits)

lemma serializePose_ok:
  assumes "world d = Some w" "joints w = Some js" "props w = Some ps"
    and "\<forall>p \<in> set ps. storable p"
  shows "serializePose now d = Inr (serialized now d) \<and>
     isStructured (serialized now d) \<and>
     js_get (serialized now d) ''joints'' = JObj (serializeJoints js) \<and>
     js_get (serialized now d) ''props'' = JArr (map recorded ps)"
proof -
  have "collect (map serializeProp ps) = Inr (map recorded ps)"
    using assms(4) by (intro collect_map_Inr) (simp add: serializeProp_storable)
  then show ?thesis
    using assms(1-3)
    by (simp add: serialized_def serializePose_def isStructured_def split: option.splits)
qed

lemma orEmpty_idem: "orEmpty (orEmpty v) = orEmpty v"
  by (simp add: orEmpty_def)

lemma orEmpty_JStr: "orEmpty (JStr s) = JStr s"
  by (simp add: orEmpty_def)

lemma recorded_fields:
  "\<not> nullish (recorded p) \<and>
   js_get_opt (recorded p) ''type'' = JStr (propType p) \<and>
   js_get_opt (recorded p) ''name'' = orEmpty (pname p) \<and>
   js_get (recorded p) ''name'' = orEmpty (pname p) \<and>
   js_get (recorded p) ''position'' = vec3_toArray (position p) \<and>
   js_get (recorded p) ''quaternion'' = quat_toArray (pquat p) \<and>
   js_get (recorded p) ''scale'' = vec3_toArray (scale p)"
  by (simp add: recorded_def js_get_opt_def)

lemma recorded_key: "descKey (recorded p) = appliedType p"
  by (simp add: descKey_def appliedType_def recorded_fields orEmpty_idem orEmpty_JStr)

lemma recorded_plain: "keyable p \<Longrightarrow> plainDesc (recorded p)"
  by (simp add: keyable_def plainDesc_def recorded_fields orEmpty_idem orEmpty_JStr)

lemma appliedType_nonempty: "appliedType p \<noteq> []"
  by (simp add: appliedType_def specKey_def Let_def code_match_nonempty)

lemma appliedType_normal: "normalType (propType p) \<Longrightarrow> appliedType p = propType p"
  by (simp add: appliedType_def specKey_def normalType_def)

lemma truthy_toArray: "truthy (vec3_toArray v) \<and> truthy (quat_toArray q)"
  by (simp add: vec3_toArray_def quat_toArray_def)

lemma rebuilt_from_recorded:
  "position (copyTransform (recorded p) (tagProp (appliedType p) x)) = position p \<and>
   pquat (copyTransform (recorded p) (tagProp (appliedType p) x)) = pquat p \<and>
   scale (copyTransform (recorded p) (tagProp (appliedType p) x)) = scale p \<and>
   propType (copyTransform (recorded p) (tagProp (appliedType p) x)) = appliedType p"
  using recorded_fields [of p] appliedType_nonempty [of p]
  by (simp add: copyTransform_def tagProp_def Let_def propType_def storedType_def
        vec3_roundtrip quat_roundtrip truthy_toArray)

lemma props_roundtrip:
  assumes "length ps = length news"
  shows "map position (map2 (\<lambda>pd x. copyTransform pd (tagProp (descKey pd) x))
            (map recorded ps) news) = map position ps \<and>
         map pquat (map2 (\<lambda>pd x. copyTransform pd (tagProp (descKey pd) x))
            (map recorded ps) news) = map pquat ps \<and>
         map scale (map2 (\<lambda>pd x. copyTransform pd (tagProp (descKey pd) x))
            (map recorded ps) news) = map scale ps \<and>
         map propType (map2 (\<lambda>pd x. copyTransform pd (tagProp (descKey pd) x))
            (map recorded ps) news) = map appliedType ps"
  using assms
proof (induction ps news rule: list_induct2)
  case Nil
  then show ?case by simp
next
  case (Cons p ps x news)
  from rebuilt_from_recorded [of p x] Cons.IH show ?case
    by (simp add: recorded_key)
qed

lemma roundtrip_run:
  assumes "world d = Some w" and "joints w = Some js" and "props w = Some ps"
    and "world d2 = Some w2" and "joints w2 = Some js2" and "props w2 = Some ps2"
    and "scene d2 = Some sc2" and "addProp d2 = Some f" and "keepsContract f"
    and "\<forall>p \<in> set ps. keyable p"
  shows "serializePose now d = Inr (serialized now d) \<and>
     fst (applyPose (serialized now d) d2) = Inr () \<and>
     liveJoints (snd (applyPose (serialized now d) d2)) =
       map (applyJoint (JObj (serializeJoints js))) js2 \<and>
     map position (liveProps (snd (applyPose (serialized now d) d2))) = map position ps \<and>
     map pquat (liveProps (snd (applyPose (serialized now d) d2))) = map pquat ps \<and>
     map scale (liveProps (snd (applyPose (serialized now d) d2))) = map scale ps \<and>
     map propType (liveProps (snd (applyPose (serialized now d) d2))) = map appliedType ps"
proof -
  let ?doc = "serialized now d"
  let ?cfg = "\<lambda>pd x. copyTransform pd (tagProp (descKey pd) x)"
  let ?sc0 = "foldl scene_remove sc2 ps2"
  have sto: "\<forall>p \<in> set ps. storable p"
    using assms(10) by (simp add: keyable_def)
  from serializePose_ok [OF assms(1-3) sto, of now]
  have ser: "serializePose now d = Inr ?doc"
    and st: "isStructured ?doc"
    and dj: "js_get ?doc ''joints'' = JObj (serializeJoints js)"
    and dp: "js_get ?doc ''props'' = JArr (map recorded ps)"
    by simp_all
  have pl: "\<forall>pd \<in> set (map recorded ps). plainDesc pd"
    using assms(10) by (simp add: recorded_plain)
  from rebuild_contract [OF assms(9), of "map recorded ps" "[]" ?sc0]
  obtain news where len: "length news = length ps"
    and run: "rebuild f (map recorded ps) ([], ?sc0) =
        (map2 ?cfg (map recorded ps) news, ?sc0 @ map ident news)"
    by auto
  have "applyProps (addProp d2) (js_get ?doc ''props'') (ps2, sc2, calls d2) =
        (None, map2 ?cfg (map recorded ps) news, ?sc0 @ map ident news,
         calls d2 @ map (\<lambda>pd. AddProp (descKey pd)) (map recorded ps))"
    using assms(8) run by (simp add: applyProps_def dp applyPropDescs_rebuild [OF pl])
  from applyPose_valid_run [OF st assms(4-7) this]
  have res: "fst (applyPose ?doc d2) = Inr ()"
    and lj: "liveJoints (snd (applyPose ?doc d2)) = map (applyJoint (JObj (serializeJoints js))) js2"
    and lp: "liveProps (snd (applyPose ?doc d2)) = map2 ?cfg (map recorded ps) news"
    by (simp_all add: liveProps_def liveJoints_def dj applyJoints_map)
  from props_roundtrip [OF len [symmetric]] res lj ser show ?thesis
    unfolding lp by simp
qed

lemma exProp_type: "propType exProp = ''Sphere''" "keyable exProp"
  "appliedType exProp = ''sphere''"
  by (simp_all add: propType_def storedType_def exProp_def keyable_def storable_def
        appliedType_def specKey_def converts_def stringOf_def trim_def is_space_def lower_simps)

text \<open>
  C1, as stated: the type of a prop is not always reproduced. The serializer records the
  stored type as it is; the applier trims it and puts it in lower case before it calls the
  factory and tags the prop. The prop of the example world has type \<open>Sphere\<close>; after
  the round trip into a fresh world its type is \<open>sphere\<close>.
\<close>

theorem roundtrip_type_counterexample:
  "serializePose ''2026-01-01T00:00:00.000Z'' exDeps =
     Inr (serialized ''2026-01-01T00:00:00.000Z'' exDeps) \<and>
   fst (applyPose (serialized ''2026-01-01T00:00:00.000Z'' exDeps) freshDeps) = Inr () \<and>
   map propType (liveProps exDeps) = [''Sphere''] \<and>
   map propType (liveProps (snd (applyPose (serialized ''2026-01-01T00:00:00.000Z'' exDeps) freshDeps))) =
     [''sphere'']"
proof -
  have w: "world exDeps = Some \<lparr>joints = Some exJoints, props = Some [exProp]\<rparr>"
    by (simp add: exDeps_def)
  have w2: "world freshDeps =
      Some \<lparr>joints = Some (Character_resetAllJointRotations exJoints), props = Some []\<rparr>"
    and sc: "scene freshDeps = Some [0]" and f: "addProp freshDeps = Some exFactory"
    by (simp_all add: freshDeps_def exDeps_def)
  have k: "keepsContract exFactory"
    by (simp add: keepsContract_def exFactory_def newProp_def)
  have lp: "liveProps exDeps = [exProp]" by (simp add: liveProps_def exDeps_def)
  have ky: "\<forall>p \<in> set [exProp]. keyable p" by (simp add: exProp_type)
  have j: "joints \<lparr>joints = Some exJoints, props = Some [exProp]\<rparr> = Some exJoints"
    and p: "props \<lparr>joints = Some exJoints, props = Some [exProp]\<rparr> = Some [exProp]"
    and j2: "joints \<lparr>joints = Some (Character_resetAllJointRotations exJoints),
                     props = Some []\<rparr> = Some (Character_resetAllJointRotations exJoints)"
    and p2: "props \<lparr>joints = Some (Character_resetAllJointRotations exJoints),
                    props = Some []\<rparr> = Some []"
    by simp_all
  note r = roundtrip_run [OF w j p w2 j2 p2 sc f k ky, of "''2026-01-01T00:00:00.000Z''"]
  from r show ?thesis by (simp add: lp exProp_type)
qed

text \<open>
  C1, amended: serializing a world whose joint names are unique and whose props have a
  type that can be recorded and keyed (the conversions to a string return), and fully
  applying the document to a fresh world with the same joint names, a scene and a prop
  factory that keeps its contract, succeeds and reproduces every joint's orientation and
  every prop's position, orientation and scale; the type of each prop is reproduced
  trimmed and in lower case (or inferred from the name when that leaves nothing), hence
  exactly when it was non-empty, trimmed and in lower case already. Values are copied, so
  the equalities are exact.
\<close>

theorem serialize_apply_roundtrip:
  assumes "world d = Some w" and "joints w = Some js" and "props w = Some ps"
    and "distinct (map jname js)"
    and "world d2 = Some w2" and "joints w2 = Some js2" and "props w2 = Some ps2"
    and "scene d2 = Some sc2" and "map jname js2 = map jname js"
    and "addProp d2 = Some f" and "keepsContract f"
    and "\<forall>p \<in> set ps. keyable p"
  shows "serializePose now d = Inr (serialized now d) \<and>
     fst (applyPose (serialized now d) d2) = Inr () \<and>
     map jname (liveJoints (snd (applyPose (serialized now d) d2))) = map jname js \<and>
     map jquat (liveJoints (snd (applyPose (serialized now d) d2))) = map jquat js \<and>
     map position (liveProps (snd (applyPose (serialized now d) d2))) = map position ps \<and>
     map pquat (liveProps (snd (applyPose (serialized now d) d2))) = map pquat ps \<and>
     map scale (liveProps (snd (applyPose (serialized now d) d2))) = map scale ps \<and>
     map propType (liveProps (snd (applyPose (serialized now d) d2))) = map appliedType ps \<and>
     ((\<forall>p \<in> set ps. normalType (propType p)) \<longrightarrow>
        map propType (liveProps (snd (applyPose (serialized now d) d2))) = map propType ps)"
proof -
  note run = roundtrip_run [OF assms(1-3) assms(5-8) assms(10-12), of now]
  note jr = joints_roundtrip [OF assms(4) assms(9)]
  have norm: "map appliedType ps = map propType ps" if "\<forall>p \<in> set ps. normalType (propType p)"
    using that by (simp add: appliedType_normal)
  from run jr norm show ?thesis by simp
qed

text \<open>
  C1 at work: the example world with its prop typed \<open>sphere\<close>, serialized and applied
  to the fresh world. A type that begins with a no-break space is not in the form the
  applier writes.
\<close>

theorem serialize_apply_roundtrip_witness:
  "distinct (map jname exJoints) \<and> keepsContract exFactory \<and>
   map jname (Character_resetAllJointRotations exJoints) = map jname exJoints \<and>
   list_all (\<lambda>p. keyable p \<and> normalType (propType p)) (liveProps tidyDeps) \<and>
   \<not> normalType (CHR 0xA0 # ''cone'') \<and>
   serializePose ''2026-01-01T00:00:00.000Z'' tidyDeps =
     Inr (serialized ''2026-01-01T00:00:00.000Z'' tidyDeps) \<and>
   fst (applyPose (serialized ''2026-01-01T00:00:00.000Z'' tidyDeps) freshDeps) = Inr () \<and>
   map jquat (liveJoints (snd (applyPose (serialized ''2026-01-01T00:00:00.000Z'' tidyDeps) freshDeps))) =
     [quatOf ''0.5'' ''0.5'' ''0.5'' ''0.5'', quatOf ''0'' ''1'' ''0'' ''0''] \<and>
   map position (liveProps (snd (applyPose (serialized ''2026-01-01T00:00:00.000Z'' tidyDeps) freshDeps))) =
     [vecOf ''1'' ''2'' ''3''] \<and>
   map pquat (liveProps (snd (applyPose (serialized ''2026-01-01T00:00:00.000Z'' tidyDeps) freshDeps))) =
     [quatOf ''0'' ''0'' ''1'' ''0''] \<and>
   map scale (liveProps (snd (applyPose (serialized ''2026-01-01T00:00:00.000Z'' tidyDeps) freshDeps))) =
     [vecOf ''2'' ''2'' ''2''] \<and>
   map propType (liveProps (snd (applyPose (serialized ''2026-01-01T00:00:00.000Z'' tidyDeps) freshDeps))) =
     [''sphere'']"
proof -
  let ?tidy = "exProp\<lparr>userData := Some \<lparr>ud_type = JStr ''sphere'', isProp = JBool True\<rparr>\<rparr>"
  let ?d' = "snd (applyPose (serialized ''2026-01-01T00:00:00.000Z'' tidyDeps) freshDeps)"
  let ?R = "Character_resetAllJointRotations"
  have w: "world tidyDeps = Some \<lparr>joints = Some exJoints, props = Some [?tidy]\<rparr>"
    by (simp add: tidyDeps_def exDeps_def)
  have j: "joints \<lparr>joints = Some exJoints, props = Some [?tidy]\<rparr> = Some exJoints"
    and p: "props \<lparr>joints = Some exJoints, props = Some [?tidy]\<rparr> = Some [?tidy]"
    by simp_all
  have w2: "world freshDeps = Some \<lparr>joints = Some (?R exJoints), props = Some []\<rparr>"
    and sc: "scene freshDeps = Some [0]" and f: "addProp freshDeps = Some exFactory"
    by (simp_all add: freshDeps_def exDeps_def)
  have j2: "joints \<lparr>joints = Some (?R exJoints), props = Some []\<rparr> = Some (?R exJoints)"
    and p2: "props \<lparr>joints = Some (?R exJoints), props = Some []\<rparr> = Some []"
    by simp_all
  have dist: "distinct (map jname exJoints)" by (simp add: exJoints_def)
  have names: "map jname (?R exJoints) = map jname exJoints"
    by (simp add: Character_resetAllJointRotations_def exJoints_def)
  have k: "keepsContract exFactory"
    by (simp add: keepsContract_def exFactory_def newProp_def)
  have ty: "propType ?tidy = ''sphere''"
    by (simp add: propType_def storedType_def exProp_def stringOf_def)
  have ky: "keyable ?tidy"
    by (simp add: keyable_def storable_def storedType_def exProp_def converts_def orEmpty_def)
  have kys: "\<forall>p \<in> set [?tidy]. keyable p" using ky by simp
  have normal: "\<forall>p \<in> set [?tidy]. normalType (propType p)"
    by (simp add: ty normalType_def trim_def is_space_def lower_simps)
  have lp: "liveProps tidyDeps = [?tidy]" by (simp add: liveProps_def w)
  have both: "list_all (\<lambda>p. keyable p \<and> normalType (propType p)) (liveProps tidyDeps)"
    unfolding lp using ky normal by simp
  have nb: "\<not> normalType (CHR 0xA0 # ''cone'')"
    by (simp add: normalType_def trim_def is_space_def toLowerCase_def)
  note t = serialize_apply_roundtrip [OF w j p dist w2 j2 p2 sc names f k kys,
      of "''2026-01-01T00:00:00.000Z''"]
  have s: "serializePose ''2026-01-01T00:00:00.000Z'' tidyDeps =
     Inr (serialized ''2026-01-01T00:00:00.000Z'' tidyDeps)"
    using t [THEN conjunct1] .
  have a: "fst (applyPose (serialized ''2026-01-01T00:00:00.000Z'' tidyDeps) freshDeps) = Inr ()"
    using t [THEN conjunct2, THEN conjunct1] .
  have b: "map jquat (liveJoints ?d') =
      [quatOf ''0.5'' ''0.5'' ''0.5'' ''0.5'', quatOf ''0'' ''1'' ''0'' ''0'']"
    using t [THEN conjunct2, THEN conjunct2, THEN conjunct2, THEN conjunct1]
    by (simp add: exJoints_def)
  have c: "map position (liveProps ?d') = [vecOf ''1'' ''2'' ''3'']"
    using t [THEN conjunct2, THEN conjunct2, THEN conjunct2, THEN conjunct2, THEN conjunct1]
    by (simp add: exProp_def)
  have d: "map pquat (liveProps ?d') = [quatOf ''0'' ''0'' ''1'' ''0'']"
    using t [THEN conjunct2, THEN conjunct2, THEN conjunct2, THEN conjunct2, THEN conjunct2,
          THEN conjunct1]
    by (simp add: exProp_def)
  have e: "map scale (liveProps ?d') = [vecOf ''2'' ''2'' ''2'']"
    using t [THEN conjunct2, THEN conjunct2, THEN conjunct2, THEN conjunct2, THEN conjunct2,
          THEN conjunct2, THEN conjunct1]
    by (simp add: exProp_def)
  have g: "map propType (liveProps ?d') = [''sphere'']"
    using t [THEN conjunct2, THEN conjunct2, THEN conjunct2, THEN conjunct2, THEN conjunct2,
          THEN conjunct2, THEN conjunct2, THEN conjunct2, THEN mp, OF normal]
    by (simp add: ty)
  show ?thesis by (intro conjI dist k names both nb s a b c d e g)
qed

end
